theory Spec2Isabelle
  imports Complex_Main
begin

section \<open>Values: Python exceptions and NumPy floats\<close>

text \<open>
  The module \<^verbatim>\<open>pyHYDRA/classification.py\<close> is Python 3 on top of NumPy, pandas and
  scikit-learn. Every \<^verbatim>\<open>raise\<close> of the module and of the library calls it makes is a
  value \<open>Inl e\<close> of a sum type.
\<close>

datatype error =
    ZeroDivisionError
  | IndexError
  | KeyError
  | ValueError string
  | AttributeError
  | TypeError
  | Exception string

text \<open>
  A NumPy \<^verbatim>\<open>float64\<close>. Finite values are idealised as real numbers (rounding and
  overflow are not modelled); the three non-finite values are kept apart, because NumPy
  arithmetic returns them where Python arithmetic raises: \<^verbatim>\<open>np.float64(0.0) / 0\<close> is
  \<^verbatim>\<open>nan\<close> (with a RuntimeWarning), \<^verbatim>\<open>1 / 0\<close> raises ZeroDivisionError. Signed zeros
  are not modelled: every zero divisor of the module is the integer 0.
\<close>

datatype np_float = Fin real | PInf | NInf | NaN

fun np_neg :: "np_float \<Rightarrow> np_float" where
  "np_neg (Fin a) = Fin (- a)"
| "np_neg PInf = NInf"
| "np_neg NInf = PInf"
| "np_neg NaN = NaN"

fun np_add :: "np_float \<Rightarrow> np_float \<Rightarrow> np_float" where
  "np_add (Fin a) (Fin b) = Fin (a + b)"
| "np_add NaN _ = NaN"
| "np_add _ NaN = NaN"
| "np_add PInf NInf = NaN"
| "np_add NInf PInf = NaN"
| "np_add PInf _ = PInf"
| "np_add _ PInf = PInf"
| "np_add NInf _ = NInf"
| "np_add _ NInf = NInf"

definition np_sub :: "np_float \<Rightarrow> np_float \<Rightarrow> np_float" where
  "np_sub a b = np_add a (np_neg b)"

text \<open>The sign of a non-NaN value: \<open>1\<close>, \<open>0\<close> or \<open>-1\<close>.\<close>

fun np_sign :: "np_float \<Rightarrow> int" where
  "np_sign (Fin a) = (if a > 0 then 1 else if a < 0 then -1 else 0)"
| "np_sign PInf = 1"
| "np_sign NInf = -1"
| "np_sign NaN = 0"

definition signed_inf :: "int \<Rightarrow> np_float" where
  "signed_inf s = (if s > 0 then PInf else if s < 0 then NInf else NaN)"

fun np_mul :: "np_float \<Rightarrow> np_float \<Rightarrow> np_float" where
  "np_mul (Fin a) (Fin b) = Fin (a * b)"
| "np_mul NaN _ = NaN"
| "np_mul _ NaN = NaN"
| "np_mul a b = signed_inf (np_sign a * np_sign b)"

text \<open>
  NumPy true division never raises. A finite value over zero is \<open>\<plusminus>inf\<close>, zero over
  zero is \<open>nan\<close>.
\<close>

fun np_div :: "np_float \<Rightarrow> np_float \<Rightarrow> np_float" where
  "np_div (Fin a) (Fin b) = (if b = 0 then signed_inf (np_sign (Fin a)) else Fin (a / b))"
| "np_div NaN _ = NaN"
| "np_div _ NaN = NaN"
| "np_div (Fin a) _ = Fin 0"
| "np_div a (Fin b) = signed_inf (np_sign a * (if b < 0 then -1 else 1))"
| "np_div _ _ = NaN"

text \<open>\<^verbatim>\<open>np.log10\<close>: \<open>-inf\<close> at zero and \<open>nan\<close> below it, with a warning and no exception.\<close>

fun np_log10 :: "np_float \<Rightarrow> np_float" where
  "np_log10 (Fin a) = (if a > 0 then Fin (log 10 a) else if a = 0 then NInf else NaN)"
| "np_log10 PInf = PInf"
| "np_log10 NInf = NaN"
| "np_log10 NaN = NaN"

text \<open>\<^verbatim>\<open>np.power(10, x)\<close>.\<close>

fun np_power10 :: "np_float \<Rightarrow> np_float" where
  "np_power10 (Fin a) = Fin (10 powr a)"
| "np_power10 PInf = PInf"
| "np_power10 NInf = Fin 0"
| "np_power10 NaN = NaN"

definition np_sum :: "np_float list \<Rightarrow> np_float" where
  "np_sum xs = foldl np_add (Fin 0) xs"

text \<open>
  \<^verbatim>\<open>np.mean\<close> divides the sum by the number of elements; of an empty array it is
  \<open>0.0 / 0 = nan\<close>.
\<close>

definition np_mean :: "np_float list \<Rightarrow> np_float" where
  "np_mean xs = np_div (np_sum xs) (Fin (real (length xs)))"

text \<open>Python's \<^verbatim>\<open>/\<close> on \<^verbatim>\<open>int\<close> and \<^verbatim>\<open>float\<close> operands raises on a zero divisor.\<close>

definition py_truediv :: "real \<Rightarrow> real \<Rightarrow> error + real" where
  "py_truediv a b = (if b = 0 then Inl ZeroDivisionError else Inr (a / b))"

text \<open>Sequencing of calls that may raise.\<close>

definition and_then :: "error + 'a \<Rightarrow> ('a \<Rightarrow> error + 'b) \<Rightarrow> error + 'b" where
  "and_then m f = (case m of Inl e \<Rightarrow> Inl e | Inr x \<Rightarrow> f x)"

text \<open>A loop whose body may raise: the first exception ends it.\<close>

fun for_each :: "('a \<Rightarrow> error + 'b) \<Rightarrow> 'a list \<Rightarrow> error + 'b list" where
  "for_each f [] = Inr []"
| "for_each f (x # xs) =
     (case f x of
        Inl e \<Rightarrow> Inl e
      | Inr v \<Rightarrow> (case for_each f xs of Inl e \<Rightarrow> Inl e | Inr vs \<Rightarrow> Inr (v # vs)))"

section \<open>The per-iteration error statistic\<close>

text \<open>
  Labels are integers (0 or 1 in a binary problem); label vectors are one-dimensional
  arrays.
\<close>

type_synonym label = int

text \<open>
  \<^verbatim>\<open>y_list != yhat_list\<close> on two arrays compares elementwise. An array of length one is
  broadcast against the other; shapes that do not broadcast raise ValueError in
  current NumPy.
\<close>

definition np_not_equal :: "label list \<Rightarrow> label list \<Rightarrow> error + bool list" where
  "np_not_equal a b =
     (if length a = length b then Inr (map (\<lambda>(u, v). u \<noteq> v) (zip a b))
      else if length b = 1 then Inr (map (\<lambda>u. u \<noteq> hd b) a)
      else if length a = 1 then Inr (map (\<lambda>v. hd a \<noteq> v) b)
      else Inl (ValueError ''operands could not be broadcast together''))"

text \<open>\<^verbatim>\<open>np.where(mask)[0]\<close>: the positions at which the mask holds, ascending.\<close>

definition np_where :: "bool list \<Rightarrow> nat list" where
  "np_where bs = filter (\<lambda>i. bs ! i) [0..<length bs]"

text \<open>
  \<^verbatim>\<open>RepeatedHoldOut._compute_average_test_error\<close>:
  \<^verbatim>\<open>float(len(np.where(y_list != yhat_list)[0])) / float(len(y_list))\<close>.
\<close>

definition compute_average_test_error :: "label list \<Rightarrow> label list \<Rightarrow> error + real" where
  "compute_average_test_error y_list yhat_list =
     (case np_not_equal y_list yhat_list of
        Inl e \<Rightarrow> Inl e
      | Inr neq \<Rightarrow> py_truediv (real (length (np_where neq))) (real (length y_list)))"

section \<open>Selecting the best parameter of an inner search\<close>

text \<open>
  A Python \<^verbatim>\<open>dict\<close> iterates in insertion order, so the mapping of candidate C to
  balanced accuracy of one inner fold is the list of its items, and the mapping of fold
  number to such a mapping is a list as well. Candidate values of C are finite floats;
  an accuracy is whatever float the scoring function returned.
\<close>

type_synonym fold_scores = "(real \<times> np_float) list"

text \<open>The comparison \<^verbatim>\<open>a > b\<close> of two floats: false whenever one of them is \<open>nan\<close>.\<close>

fun np_greater :: "np_float \<Rightarrow> np_float \<Rightarrow> bool" where
  "np_greater (Fin a) (Fin b) = (a > b)"
| "np_greater NaN _ = False"
| "np_greater _ NaN = False"
| "np_greater PInf b = (b \<noteq> PInf)"
| "np_greater a NInf = (a \<noteq> NInf)"
| "np_greater _ _ = False"

text \<open>The dictionary \<^verbatim>\<open>{'c': ..., 'balanced_accuracy': ...}\<close>.\<close>

record best_parameter =
  bp_c :: np_float
  bp_balanced_accuracy :: np_float

text \<open>
  The inner loop of \<^verbatim>\<open>_select_best_parameter\<close> over the items of one fold, on the
  pair \<open>(best_c, best_acc)\<close>; the caller starts it at \<open>(-1, -1)\<close>.
\<close>

fun best_of_fold :: "real \<times> np_float \<Rightarrow> fold_scores \<Rightarrow> real \<times> np_float" where
  "best_of_fold (best_c, best_acc) [] = (best_c, best_acc)"
| "best_of_fold (best_c, best_acc) ((c, acc) # items) =
     (if np_greater acc best_acc then best_of_fold (c, acc) items
      else best_of_fold (best_c, best_acc) items)"

text \<open>
  The outer loop appends each fold's winner to \<open>c_values\<close> and \<open>accuracies\<close>.
\<close>

fun collect_winners ::
  "real list \<times> np_float list \<Rightarrow> (nat \<times> fold_scores) list \<Rightarrow> real list \<times> np_float list" where
  "collect_winners (c_values, accuracies) [] = (c_values, accuracies)"
| "collect_winners (c_values, accuracies) ((k, items) # folds) =
     (case best_of_fold (-1, Fin (-1)) items of
        (best_c, best_acc) \<Rightarrow>
          collect_winners (c_values @ [best_c], accuracies @ [best_acc]) folds)"

text \<open>
  \<^verbatim>\<open>_select_best_parameter\<close>, which both algorithm classes define with the same body.
\<close>

definition select_best_parameter :: "(nat \<times> fold_scores) list \<Rightarrow> best_parameter" where
  "select_best_parameter async_result =
     (case collect_winners ([], []) async_result of
        (c_values, accuracies) \<Rightarrow>
          \<lparr> bp_c = np_power10 (np_mean (map (\<lambda>c. np_log10 (Fin c)) c_values)),
            bp_balanced_accuracy = np_mean accuracies \<rparr>)"

section \<open>The collaborators: scikit-learn and the scoring function\<close>

type_synonym matrix = "real list list"

text \<open>
  A split is a pair of index arrays, train first. Indices are 0-based positions into the
  sample set.
\<close>

type_synonym split = "nat list \<times> nat list"

text \<open>The dictionary that \<^verbatim>\<open>utils.evaluate_prediction\<close> returns.\<close>

record metrics =
  balanced_accuracy :: np_float
  accuracy :: np_float
  sensitivity :: np_float
  specificity :: np_float
  ppv :: np_float
  npv :: np_float

text \<open>The \<^verbatim>\<open>kernel\<close> argument of \<^verbatim>\<open>SVC\<close>.\<close>

datatype kernel_kind = Precomputed | Linear

text \<open>
  The functions the module imports and does not define are parameters of the model,
  gathered in one record. Each may raise. \<open>SVC_fit k balanced c X y\<close> stands for
  \<^verbatim>\<open>SVC(C=c, kernel=k, probability=True, tol=1e-6[, class_weight='balanced']).fit(X, y)\<close>
  and \<open>StratifiedKFold_split n y\<close> for
  \<^verbatim>\<open>list(StratifiedKFold(n_splits=n, shuffle=True).split(np.zeros(len(y)), y))\<close>;
  \<open>StratifiedShuffleSplit_split n t y\<close> likewise. A shuffled split draws random numbers:
  one record is one draw.
\<close>

record 'svc library =
  SVC_fit :: "kernel_kind \<Rightarrow> bool \<Rightarrow> np_float \<Rightarrow> matrix \<Rightarrow> label list \<Rightarrow> error + 'svc"
  SVC_predict :: "'svc \<Rightarrow> matrix \<Rightarrow> error + label list"
  SVC_predict_proba :: "'svc \<Rightarrow> matrix \<Rightarrow> error + np_float list"
  roc_auc_score :: "label list \<Rightarrow> np_float list \<Rightarrow> error + np_float"
  evaluate_prediction :: "label list \<Rightarrow> label list \<Rightarrow> error + metrics"
  StratifiedKFold_split :: "int \<Rightarrow> label list \<Rightarrow> error + split list"
  StratifiedShuffleSplit_split :: "int \<Rightarrow> real \<Rightarrow> label list \<Rightarrow> error + split list"

section \<open>The two SVM algorithm classes\<close>

text \<open>
  \<^verbatim>\<open>LinearSVMAlgorithmWithPrecomputedKernel\<close> and
  \<^verbatim>\<open>LinearSVMAlgorithmWithoutPrecomputedKernel\<close> have the same fields and the same
  method bodies but for two points: the first slices its kernel by rows and columns and
  fits \<^verbatim>\<open>SVC(kernel='precomputed')\<close>, the second slices its feature matrix by rows and
  fits \<^verbatim>\<open>SVC(kernel='linear')\<close>. One record holds the fields of either; \<open>alg_kind\<close>
  says which class the object is, and \<open>alg_data\<close> is its \<^verbatim>\<open>_kernel\<close> or its \<^verbatim>\<open>_x\<close>.
\<close>

record algorithm =
  alg_kind :: kernel_kind
  alg_data :: matrix
  alg_y :: "label list"
  alg_balanced :: bool
  alg_grid_search_folds :: int
  alg_c_range :: "real list"
  alg_n_threads :: int

text \<open>\<^verbatim>\<open>a[idx]\<close> with an index array: IndexError when an index is out of bounds.\<close>

definition np_take :: "'a list \<Rightarrow> nat list \<Rightarrow> error + 'a list" where
  "np_take a idx =
     (if list_all (\<lambda>i. i < length a) idx then Inr (map (\<lambda>i. a ! i) idx) else Inl IndexError)"

text \<open>
  \<^verbatim>\<open>m[rows, :][:, cols]\<close> for the precomputed kernel, \<^verbatim>\<open>m[rows, :]\<close> for the feature
  matrix (which ignores \<open>cols\<close>).
\<close>

definition slice :: "kernel_kind \<Rightarrow> matrix \<Rightarrow> nat list \<Rightarrow> nat list \<Rightarrow> error + matrix" where
  "slice k m rows cols =
     (case k of
        Precomputed \<Rightarrow> and_then (np_take m rows) (for_each (\<lambda>r. np_take r cols))
      | Linear \<Rightarrow> np_take m rows)"

text \<open>\<^verbatim>\<open>_launch_svc\<close>: returns \<open>(svc, y_hat, auc, y_hat_train)\<close>.\<close>

definition launch_svc ::
  "'svc library \<Rightarrow> algorithm \<Rightarrow> matrix \<Rightarrow> matrix \<Rightarrow> label list \<Rightarrow> label list \<Rightarrow> np_float
     \<Rightarrow> error + ('svc \<times> label list \<times> np_float \<times> label list)" where
  "launch_svc lib self kernel_train x_test y_train y_test c =
     and_then (SVC_fit lib (alg_kind self) (alg_balanced self) c kernel_train y_train) (\<lambda>svc.
     and_then (SVC_predict lib svc kernel_train) (\<lambda>y_hat_train.
     and_then (SVC_predict lib svc x_test) (\<lambda>y_hat.
     and_then (SVC_predict_proba lib svc x_test) (\<lambda>proba_test.
     and_then (roc_auc_score lib y_test proba_test) (\<lambda>auc.
     Inr (svc, y_hat, auc, y_hat_train))))))"

text \<open>\<^verbatim>\<open>_grid_search\<close>: the balanced accuracy of one candidate on one inner fold.\<close>

definition grid_search ::
  "'svc library \<Rightarrow> algorithm \<Rightarrow> matrix \<Rightarrow> matrix \<Rightarrow> label list \<Rightarrow> label list \<Rightarrow> real
     \<Rightarrow> error + np_float" where
  "grid_search lib self kernel_train x_test y_train y_test c =
     and_then (launch_svc lib self kernel_train x_test y_train y_test (Fin c))
       (\<lambda>(svc, y_hat, auc, y_hat_train).
     and_then (evaluate_prediction lib y_test y_hat) (\<lambda>ev.
     Inr (balanced_accuracy ev)))"

text \<open>A loop that updates a variable and whose body may raise.\<close>

fun for_loop :: "('s \<Rightarrow> 'a \<Rightarrow> error + 's) \<Rightarrow> 's \<Rightarrow> 'a list \<Rightarrow> error + 's" where
  "for_loop body s [] = Inr s"
| "for_loop body s (x # xs) =
     (case body s x of Inl e \<Rightarrow> Inl e | Inr s' \<Rightarrow> for_loop body s' xs)"

text \<open>
  \<^verbatim>\<open>d[k]\<close> raises KeyError on a missing key; \<^verbatim>\<open>d[k] = v\<close> replaces the value of a key
  in place and appends a new key at the end.
\<close>

definition dict_get :: "('k \<times> 'v) list \<Rightarrow> 'k \<Rightarrow> error + 'v" where
  "dict_get d k = (case map_of d k of None \<Rightarrow> Inl KeyError | Some v \<Rightarrow> Inr v)"

fun dict_set :: "('k \<times> 'v) list \<Rightarrow> 'k \<Rightarrow> 'v \<Rightarrow> ('k \<times> 'v) list" where
  "dict_set [] k v = [(k, v)]"
| "dict_set ((k', v') # d) k v = (if k' = k then (k, v) # d else (k', v') # dict_set d k v)"

text \<open>
  \<^verbatim>\<open>ThreadPool(n)\<close> raises ValueError unless \<open>n\<close> is at least one. Every task is
  awaited as soon as it is submitted (\<^verbatim>\<open>apply_async\<close> is followed by \<^verbatim>\<open>get\<close> at once),
  so a task is a plain call and the pool has no other effect.
\<close>

definition ThreadPool :: "int \<Rightarrow> error + unit" where
  "ThreadPool processes =
     (if processes < 1 then Inl (ValueError ''Number of processes must be at least 1'')
      else Inr ())"

text \<open>
  The body of \<^verbatim>\<open>for c in self._c_range\<close> in \<^verbatim>\<open>evaluate\<close>; \<^verbatim>\<open>print\<close> is left out.
\<close>

definition candidate_step ::
  "'svc library \<Rightarrow> algorithm \<Rightarrow> matrix \<Rightarrow> matrix \<Rightarrow> label list \<Rightarrow> label list \<Rightarrow> nat
     \<Rightarrow> (nat \<times> fold_scores) list \<Rightarrow> real \<Rightarrow> error + (nat \<times> fold_scores) list" where
  "candidate_step lib self inner_kernel x_test_inner y_train_inner y_test_inner i async_result c =
     and_then (grid_search lib self inner_kernel x_test_inner y_train_inner y_test_inner c) (\<lambda>acc.
     and_then (dict_get async_result i) (\<lambda>scores.
     Inr (dict_set async_result i (dict_set scores c acc))))"

text \<open>The body of \<^verbatim>\<open>for i in range(len(inner_cv))\<close>.\<close>

definition inner_fold_step ::
  "'svc library \<Rightarrow> algorithm \<Rightarrow> matrix \<Rightarrow> label list \<Rightarrow> split list
     \<Rightarrow> (nat \<times> fold_scores) list \<Rightarrow> nat \<Rightarrow> error + (nat \<times> fold_scores) list" where
  "inner_fold_step lib self outer_kernel y_train inner_cv async_result i =
     (case inner_cv ! i of (inner_train_index, inner_test_index) \<Rightarrow>
        and_then (slice (alg_kind self) outer_kernel inner_train_index inner_train_index)
          (\<lambda>inner_kernel.
        and_then (slice (alg_kind self) outer_kernel inner_test_index inner_train_index)
          (\<lambda>x_test_inner.
        and_then (np_take y_train inner_train_index) (\<lambda>y_train_inner.
        and_then (np_take y_train inner_test_index) (\<lambda>y_test_inner.
        for_loop
          (candidate_step lib self inner_kernel x_test_inner y_train_inner y_test_inner i)
          async_result (alg_c_range self))))))"

text \<open>
  \<^verbatim>\<open>evaluate\<close> up to and including \<^verbatim>\<open>best_parameter = self._select_best_parameter(async_result)\<close>:
  the inner search. It returns the best parameter with the two values the rest of
  \<^verbatim>\<open>evaluate\<close> uses again, \<open>outer_kernel\<close> (\<open>outer_x\<close> in the second class) and
  \<open>y_train\<close>.
\<close>

definition evaluate_select ::
  "'svc library \<Rightarrow> algorithm \<Rightarrow> nat list \<Rightarrow> error + (best_parameter \<times> matrix \<times> label list)" where
  "evaluate_select lib self train_index =
     and_then (ThreadPool (alg_n_threads self)) (\<lambda>inner_pool.
     (let async_result = map (\<lambda>i. (i, [])) [0..<nat (alg_grid_search_folds self)] in
      and_then (slice (alg_kind self) (alg_data self) train_index train_index) (\<lambda>outer_kernel.
      and_then (np_take (alg_y self) train_index) (\<lambda>y_train.
      and_then (StratifiedKFold_split lib (alg_grid_search_folds self) y_train) (\<lambda>inner_cv.
      and_then
        (for_loop (inner_fold_step lib self outer_kernel y_train inner_cv) async_result
           [0..<length inner_cv]) (\<lambda>async_result.
      Inr (select_best_parameter async_result, outer_kernel, y_train)))))))"

text \<open>The dictionary \<^verbatim>\<open>result\<close> that \<^verbatim>\<open>evaluate\<close> returns, key by key.\<close>

record result =
  res_best_parameter :: best_parameter
  res_evaluation :: metrics
  res_evaluation_train :: metrics
  res_y_hat :: "label list"
  res_y_hat_train :: "label list"
  res_y :: "label list"
  res_y_train :: "label list"
  res_y_index :: "nat list"
  res_x_index :: "nat list"
  res_auc :: np_float

definition evaluate ::
  "'svc library \<Rightarrow> algorithm \<Rightarrow> nat list \<Rightarrow> nat list \<Rightarrow> error + result" where
  "evaluate lib self train_index test_index =
     and_then (evaluate_select lib self train_index) (\<lambda>(best_parameter, outer_kernel, y_train0).
     and_then (slice (alg_kind self) (alg_data self) test_index train_index) (\<lambda>x_test.
     and_then (np_take (alg_y self) train_index) (\<lambda>y_train.
     and_then (np_take (alg_y self) test_index) (\<lambda>y_test.
     and_then (launch_svc lib self outer_kernel x_test y_train y_test (bp_c best_parameter))
       (\<lambda>(svc, y_hat, auc, y_hat_train).
     and_then (evaluate_prediction lib y_test y_hat) (\<lambda>ev.
     and_then (evaluate_prediction lib y_train y_hat_train) (\<lambda>ev_train.
     Inr \<lparr> res_best_parameter = best_parameter,
           res_evaluation = ev,
           res_evaluation_train = ev_train,
           res_y_hat = y_hat,
           res_y_hat_train = y_hat_train,
           res_y = y_test,
           res_y_train = y_train,
           res_y_index = test_index,
           res_x_index = train_index,
           res_auc = auc \<rparr>)))))))"

text \<open>
  \<^verbatim>\<open>apply_best_parameters\<close>. Its loop appends to \<open>best_c_list\<close> and \<open>bal_acc_list\<close>; the
  classifier is then fitted on \<^verbatim>\<open>self._kernel\<close> (or \<^verbatim>\<open>self._x\<close>) and \<^verbatim>\<open>self._y\<close>.
\<close>

definition append_best ::
  "np_float list \<times> np_float list \<Rightarrow> result \<Rightarrow> np_float list \<times> np_float list" where
  "append_best acc r =
     (case acc of (best_c_list, bal_acc_list) \<Rightarrow>
        (best_c_list @ [bp_c (res_best_parameter r)],
         bal_acc_list @ [bp_balanced_accuracy (res_best_parameter r)]))"

definition apply_best_parameters ::
  "'svc library \<Rightarrow> algorithm \<Rightarrow> result list \<Rightarrow> error + ('svc \<times> best_parameter)" where
  "apply_best_parameters lib self results_list =
     (case foldl append_best ([], []) results_list of (best_c_list, bal_acc_list) \<Rightarrow>
        (let best_c = np_power10 (np_mean (map np_log10 best_c_list));
             mean_bal_acc = np_mean bal_acc_list
         in and_then
              (SVC_fit lib (alg_kind self) (alg_balanced self) best_c (alg_data self) (alg_y self))
              (\<lambda>svc. Inr (svc, \<lparr> bp_c = best_c, bp_balanced_accuracy = mean_bal_acc \<rparr>))))"

section \<open>The validation classes\<close>

text \<open>
  An object is a record of its attributes; a method takes the object and returns it
  updated, next to its outcome. An exception leaves the object as the statements before
  the \<^verbatim>\<open>raise\<close> made it, so the outcome \<open>Inl e\<close> comes with a state too. An attribute
  that \<^verbatim>\<open>__init__\<close> sets to \<^verbatim>\<open>None\<close> is an option; the two result lists are options as
  well, since \<^verbatim>\<open>save_results\<close> tests them against \<^verbatim>\<open>None\<close>.
\<close>

record 'svc KFoldCV =
  kf_ml_algorithm :: algorithm
  kf_fold_results :: "result list option"
  kf_classifier :: "'svc option"
  kf_best_params :: "best_parameter option"
  kf_cv :: "split list option"

definition KFoldCV_init :: "algorithm \<Rightarrow> 'svc KFoldCV" where
  "KFoldCV_init ml_algorithm =
     \<lparr> kf_ml_algorithm = ml_algorithm,
       kf_fold_results = Some [],
       kf_classifier = None,
       kf_best_params = None,
       kf_cv = None \<rparr>"

record 'svc RepeatedHoldOut =
  rh_ml_algorithm :: algorithm
  rh_split_results :: "result list option"
  rh_classifier :: "'svc option"
  rh_best_params :: "best_parameter option"
  rh_cv :: "split list option"
  rh_n_iterations :: int
  rh_test_size :: real
  rh_error_resampled_t :: "np_float option"
  rh_error_corrected_resampled_t :: "np_float option"
  rh_bal_accuracy_resampled_t :: "np_float option"
  rh_bal_accuracy_corrected_resampled_t :: "np_float option"

definition RepeatedHoldOut_init :: "algorithm \<Rightarrow> int \<Rightarrow> real \<Rightarrow> 'svc RepeatedHoldOut" where
  "RepeatedHoldOut_init ml_algorithm n_iterations test_size =
     \<lparr> rh_ml_algorithm = ml_algorithm,
       rh_split_results = Some [],
       rh_classifier = None,
       rh_best_params = None,
       rh_cv = None,
       rh_n_iterations = n_iterations,
       rh_test_size = test_size,
       rh_error_resampled_t = None,
       rh_error_corrected_resampled_t = None,
       rh_bal_accuracy_resampled_t = None,
       rh_bal_accuracy_corrected_resampled_t = None \<rparr>"

text \<open>
  The dispatch loop of \<^verbatim>\<open>KFoldCV.validate\<close>, \<^verbatim>\<open>for i in range(n_folds)\<close>:
  \<^verbatim>\<open>self._cv[i]\<close> raises IndexError past the end of the list.
\<close>

definition kfold_dispatch ::
  "'svc library \<Rightarrow> algorithm \<Rightarrow> split list \<Rightarrow> int \<Rightarrow> error + result list" where
  "kfold_dispatch lib alg cv n_folds =
     for_each
       (\<lambda>i. if i < length cv
             then (case cv ! i of (train_index, test_index) \<Rightarrow>
                     evaluate lib alg train_index test_index)
             else Inl IndexError)
       [0..<nat n_folds]"

text \<open>
  \<^verbatim>\<open>KFoldCV.validate\<close>. The second loop appends the results of the run to
  \<^verbatim>\<open>self._fold_results\<close>; on \<^verbatim>\<open>None\<close> the first \<^verbatim>\<open>append\<close> would raise AttributeError and,
  with nothing to append, the iteration in \<^verbatim>\<open>apply_best_parameters\<close> TypeError.
\<close>

definition KFoldCV_validate ::
  "'svc library \<Rightarrow> 'svc KFoldCV \<Rightarrow> label list \<Rightarrow> int \<Rightarrow> int \<Rightarrow> split list option
     \<Rightarrow> (error + ('svc \<times> best_parameter \<times> result list)) \<times> 'svc KFoldCV" where
  "KFoldCV_validate lib self y n_folds n_threads splits_indices =
     (case (case splits_indices of
              None \<Rightarrow> StratifiedKFold_split lib n_folds y
            | Some given \<Rightarrow> Inr given) of
        Inl e \<Rightarrow> (Inl e, self)
      | Inr cv \<Rightarrow>
          (let self1 = self\<lparr>kf_cv := Some cv\<rparr> in
           case and_then (ThreadPool n_threads)
                  (\<lambda>async_pool. kfold_dispatch lib (kf_ml_algorithm self1) cv n_folds) of
             Inl e \<Rightarrow> (Inl e, self1)
           | Inr async_result \<Rightarrow>
               (case kf_fold_results self1 of
                  None \<Rightarrow> (Inl (if async_result = [] then TypeError else AttributeError), self1)
                | Some fold_results \<Rightarrow>
                    (let self2 = self1\<lparr>kf_fold_results := Some (fold_results @ async_result)\<rparr> in
                     case apply_best_parameters lib (kf_ml_algorithm self2)
                            (fold_results @ async_result) of
                       Inl e \<Rightarrow> (Inl e, self2)
                     | Inr (classifier, best_params) \<Rightarrow>
                         (Inr (classifier, best_params, fold_results @ async_result),
                          self2\<lparr>kf_classifier := Some classifier,
                                kf_best_params := Some best_params\<rparr>)))))"

text \<open>
  The dispatch loop of \<^verbatim>\<open>RepeatedHoldOut.validate\<close>,
  \<^verbatim>\<open>for i in range(self._n_iterations)\<close>, with the \<^verbatim>\<open>raise\<close> of its \<^verbatim>\<open>else\<close> branch.
\<close>

definition holdout_dispatch ::
  "'svc library \<Rightarrow> algorithm \<Rightarrow> split list \<Rightarrow> int \<Rightarrow> bool \<Rightarrow> error + result list" where
  "holdout_dispatch lib alg cv n_iterations inner_cv =
     for_each
       (\<lambda>i. if i < length cv
             then (case cv ! i of (train_index, test_index) \<Rightarrow>
                     if inner_cv then evaluate lib alg train_index test_index
                     else Inl (Exception ''We always do nested CV''))
             else Inl IndexError)
       [0..<nat n_iterations]"

definition RepeatedHoldOut_validate ::
  "'svc library \<Rightarrow> 'svc RepeatedHoldOut \<Rightarrow> label list \<Rightarrow> int \<Rightarrow> split list option \<Rightarrow> bool
     \<Rightarrow> (error + ('svc \<times> best_parameter \<times> result list)) \<times> 'svc RepeatedHoldOut" where
  "RepeatedHoldOut_validate lib self y n_threads splits_indices inner_cv =
     (case (case splits_indices of
              None \<Rightarrow> StratifiedShuffleSplit_split lib (rh_n_iterations self) (rh_test_size self) y
            | Some given \<Rightarrow> Inr given) of
        Inl e \<Rightarrow> (Inl e, self)
      | Inr cv \<Rightarrow>
          (let self1 = self\<lparr>rh_cv := Some cv\<rparr> in
           case and_then (ThreadPool n_threads)
                  (\<lambda>async_pool. holdout_dispatch lib (rh_ml_algorithm self1) cv
                                  (rh_n_iterations self1) inner_cv) of
             Inl e \<Rightarrow> (Inl e, self1)
           | Inr async_result \<Rightarrow>
               (case rh_split_results self1 of
                  None \<Rightarrow> (Inl (if async_result = [] then TypeError else AttributeError), self1)
                | Some split_results \<Rightarrow>
                    (let self2 = self1\<lparr>rh_split_results := Some (split_results @ async_result)\<rparr> in
                     case apply_best_parameters lib (rh_ml_algorithm self2)
                            (split_results @ async_result) of
                       Inl e \<Rightarrow> (Inl e, self2)
                     | Inr (classifier, best_params) \<Rightarrow>
                         (Inr (classifier, best_params, split_results @ async_result),
                          self2\<lparr>rh_classifier := Some classifier,
                                rh_best_params := Some best_params\<rparr>)))))"

section \<open>The variance estimator\<close>

text \<open>
  \<^verbatim>\<open>RepeatedHoldOut._compute_variance\<close>. \<open>num_split\<close> is the length of
  \<^verbatim>\<open>self._split_results\<close>; the two divisions of the array reduction are NumPy's, the
  divisions \<^verbatim>\<open>1/num_split\<close> and \<^verbatim>\<open>self._test_size/(1 - self._test_size)\<close> are Python's.
\<close>

definition compute_variance ::
  "'svc RepeatedHoldOut \<Rightarrow> np_float list \<Rightarrow> error + (np_float \<times> np_float)" where
  "compute_variance self test_error_split =
     (case rh_split_results self of
        None \<Rightarrow> Inl TypeError
      | Some split_results \<Rightarrow>
          (let num_split = int (length split_results);
               average_test_error = np_mean test_error_split;
               approx_variance =
                 np_div
                   (np_sum (map (\<lambda>x. np_mul (np_sub x average_test_error)
                                           (np_sub x average_test_error)) test_error_split))
                   (Fin (real_of_int (num_split - 1)));
               resampled_t = np_div approx_variance (Fin (real_of_int num_split))
           in and_then (py_truediv 1 (real_of_int num_split)) (\<lambda>a.
              and_then (py_truediv (rh_test_size self) (1 - rh_test_size self)) (\<lambda>b.
              Inr (resampled_t, np_mul (Fin (a + b)) approx_variance)))))"

definition compute_error_variance ::
  "'svc RepeatedHoldOut \<Rightarrow> (error + (np_float \<times> np_float)) \<times> 'svc RepeatedHoldOut" where
  "compute_error_variance self =
     (case rh_split_results self of
        None \<Rightarrow> (Inl TypeError, self)
      | Some split_results \<Rightarrow>
          (case for_each (\<lambda>r. compute_average_test_error (res_y r) (res_y_hat r))
                  split_results of
             Inl e \<Rightarrow> (Inl e, self)
           | Inr test_error_split \<Rightarrow>
               (case compute_variance self (map Fin test_error_split) of
                  Inl e \<Rightarrow> (Inl e, self)
                | Inr (resampled_t, corrected_resampled_t) \<Rightarrow>
                    (Inr (resampled_t, corrected_resampled_t),
                     self\<lparr>rh_error_resampled_t := Some resampled_t,
                          rh_error_corrected_resampled_t := Some corrected_resampled_t\<rparr>))))"

text \<open>\<^verbatim>\<open>_compute_average_test_accuracy\<close>.\<close>

definition compute_average_test_accuracy ::
  "'svc library \<Rightarrow> label list \<Rightarrow> label list \<Rightarrow> error + np_float" where
  "compute_average_test_accuracy lib y_list yhat_list =
     and_then (evaluate_prediction lib y_list yhat_list) (\<lambda>ev. Inr (balanced_accuracy ev))"

definition compute_accuracy_variance ::
  "'svc library \<Rightarrow> 'svc RepeatedHoldOut
     \<Rightarrow> (error + (np_float \<times> np_float)) \<times> 'svc RepeatedHoldOut" where
  "compute_accuracy_variance lib self =
     (case rh_split_results self of
        None \<Rightarrow> (Inl TypeError, self)
      | Some split_results \<Rightarrow>
          (case for_each (\<lambda>r. compute_average_test_accuracy lib (res_y r) (res_y_hat r))
                  split_results of
             Inl e \<Rightarrow> (Inl e, self)
           | Inr test_accuracy_split \<Rightarrow>
               (case compute_variance self test_accuracy_split of
                  Inl e \<Rightarrow> (Inl e, self)
                | Inr (resampled_t, corrected_resampled_t) \<Rightarrow>
                    (Inr (resampled_t, corrected_resampled_t),
                     self\<lparr>rh_bal_accuracy_resampled_t := Some resampled_t,
                          rh_bal_accuracy_corrected_resampled_t := Some corrected_resampled_t\<rparr>))))"

section \<open>Saving the results\<close>

text \<open>
  A pandas \<^verbatim>\<open>DataFrame\<close> is the list of its columns in order, each a name and its
  cells; every cell is a float (labels and indices are whole numbers). Building a frame
  from arrays of different lengths raises ValueError.
\<close>

type_synonym dataframe = "(string \<times> np_float list) list"

definition pd_DataFrame :: "(string \<times> np_float list) list \<Rightarrow> error + dataframe" where
  "pd_DataFrame cols =
     (if list_all (\<lambda>col. length (snd col) = length (snd (hd cols))) cols then Inr cols
      else Inl (ValueError ''All arrays must be of the same length''))"

definition n_rows :: "dataframe \<Rightarrow> nat" where
  "n_rows df = (case df of [] \<Rightarrow> 0 | col # _ \<Rightarrow> length (snd col))"

text \<open>
  \<^verbatim>\<open>pd.concat\<close> stacks frames by rows, a column a frame lacks being filled with
  \<open>nan\<close>. On an empty list it raises \<^verbatim>\<open>ValueError('No objects to concatenate')\<close>.
\<close>

definition pd_concat :: "dataframe list \<Rightarrow> error + dataframe" where
  "pd_concat frames =
     (if frames = [] then Inl (ValueError ''No objects to concatenate'')
      else Inr (map (\<lambda>name.
                  (name, concat (map (\<lambda>df. case map_of df name of
                                              Some cells \<Rightarrow> cells
                                            | None \<Rightarrow> replicate (n_rows df) NaN) frames)))
                (remdups (concat (map (map fst) frames)))))"

text \<open>\<^verbatim>\<open>np.nanmean\<close>: the mean of the cells that are not \<open>nan\<close>.\<close>

definition np_nanmean :: "np_float list \<Rightarrow> np_float" where
  "np_nanmean cells = np_mean (filter (\<lambda>v. v \<noteq> NaN) cells)"

text \<open>
  The file system, as far as \<^verbatim>\<open>save_results\<close> touches it: the directories made and
  the tables written. \<^verbatim>\<open>os.makedirs\<close> and \<^verbatim>\<open>to_csv\<close> are taken to succeed; what
  \<^verbatim>\<open>print\<close> writes is left out.
\<close>

record filesystem =
  fs_dirs :: "string list"
  fs_files :: "(string \<times> dataframe) list"

definition os_path_exists :: "filesystem \<Rightarrow> string \<Rightarrow> bool" where
  "os_path_exists fs path = (path \<in> set (fs_dirs fs) \<or> path \<in> set (map fst (fs_files fs)))"

definition os_makedirs :: "filesystem \<Rightarrow> string \<Rightarrow> filesystem" where
  "os_makedirs fs path = fs\<lparr>fs_dirs := fs_dirs fs @ [path]\<rparr>"

definition to_csv :: "filesystem \<Rightarrow> string \<Rightarrow> dataframe \<Rightarrow> filesystem" where
  "to_csv fs path df = fs\<lparr>fs_files := dict_set (fs_files fs) path df\<rparr>"

text \<open>\<^verbatim>\<open>os.path.join\<close> of a directory and a relative name.\<close>

definition os_path_join :: "string \<Rightarrow> string \<Rightarrow> string" where
  "os_path_join dir name =
     (if dir = [] then name
      else if last dir = CHR ''/'' then dir @ name
      else dir @ ''/'' @ name)"

text \<open>\<^verbatim>\<open>str(i)\<close> of a loop counter.\<close>

fun str :: "nat \<Rightarrow> string" where
  "str n = (if n < 10 then [char_of (48 + n)] else str (n div 10) @ [char_of (48 + n mod 10)])"

declare str.simps [simp del]

definition label_cells :: "label list \<Rightarrow> np_float list" where
  "label_cells ys = map (\<lambda>v. Fin (real_of_int v)) ys"

definition index_cells :: "nat list \<Rightarrow> np_float list" where
  "index_cells idx = map (\<lambda>i. Fin (real i)) idx"

text \<open>A loop whose body may raise and whose effects up to the \<^verbatim>\<open>raise\<close> stay.\<close>

fun io_loop :: "('s \<Rightarrow> 'a \<Rightarrow> (error + unit) \<times> 's) \<Rightarrow> 's \<Rightarrow> 'a list \<Rightarrow> (error + unit) \<times> 's" where
  "io_loop body s [] = (Inr (), s)"
| "io_loop body s (x # xs) =
     (case body s x of
        (Inl e, s') \<Rightarrow> (Inl e, s')
      | (Inr u, s') \<Rightarrow> io_loop body s' xs)"

text \<open>
  The body of the loop of \<^verbatim>\<open>KFoldCV.save_results\<close>, on the file system and the two
  lists \<open>subjects_folds\<close> and \<open>results_folds\<close>.
\<close>

definition kfold_save_fold ::
  "string \<Rightarrow> result list \<Rightarrow> filesystem \<times> dataframe list \<times> dataframe list \<Rightarrow> nat
     \<Rightarrow> (error + unit) \<times> filesystem \<times> dataframe list \<times> dataframe list" where
  "kfold_save_fold container_dir fold_results s i =
     (case s of (fs, subjects_folds, results_folds) \<Rightarrow>
        (let r = fold_results ! i in
         case pd_DataFrame [(''y'', label_cells (res_y r)),
                            (''y_hat'', label_cells (res_y_hat r)),
                            (''y_index'', index_cells (res_y_index r))] of
           Inl e \<Rightarrow> (Inl e, s)
         | Inr subjects_df \<Rightarrow>
             (let fs1 = to_csv fs
                          (os_path_join container_dir (''subjects_fold-'' @ str i @ ''.tsv''))
                          subjects_df;
                  results_df =
                    [(''balanced_accuracy'', [balanced_accuracy (res_evaluation r)]),
                     (''auc'', [res_auc r]),
                     (''accuracy'', [accuracy (res_evaluation r)]),
                     (''sensitivity'', [sensitivity (res_evaluation r)]),
                     (''specificity'', [specificity (res_evaluation r)]),
                     (''ppv'', [ppv (res_evaluation r)]),
                     (''npv'', [npv (res_evaluation r)])];
                  fs2 = to_csv fs1
                          (os_path_join container_dir (''results_fold-'' @ str i @ ''.tsv''))
                          results_df
              in (Inr (), fs2, subjects_folds @ [subjects_df], results_folds @ [results_df]))))"

definition mean_of_columns :: "dataframe \<Rightarrow> dataframe" where
  "mean_of_columns df = map (\<lambda>col. (fst col, [np_nanmean (snd col)])) df"

definition KFoldCV_save_results ::
  "'svc KFoldCV \<Rightarrow> string \<Rightarrow> filesystem \<Rightarrow> (error + unit) \<times> filesystem" where
  "KFoldCV_save_results self output_dir fs =
     (case kf_fold_results self of
        None \<Rightarrow>
          (Inl (Exception
             ''No results to save. Method validate() must be run before save_results().''), fs)
      | Some fold_results \<Rightarrow>
          (let container_dir = os_path_join output_dir ''folds'';
               fs1 = (if \<not> os_path_exists fs container_dir then os_makedirs fs container_dir
                      else fs)
           in case io_loop (kfold_save_fold container_dir fold_results) (fs1, [], [])
                     [0..<length fold_results] of
                (Inl e, fs2, subjects_folds, results_folds) \<Rightarrow> (Inl e, fs2)
              | (Inr u, fs2, subjects_folds, results_folds) \<Rightarrow>
                  (case pd_concat subjects_folds of
                     Inl e \<Rightarrow> (Inl e, fs2)
                   | Inr all_subjects \<Rightarrow>
                       (let fs3 = to_csv fs2 (os_path_join output_dir ''subjects.tsv'')
                                    all_subjects
                        in case pd_concat results_folds of
                             Inl e \<Rightarrow> (Inl e, fs3)
                           | Inr all_results \<Rightarrow>
                               (let fs4 = to_csv fs3 (os_path_join output_dir ''results.tsv'')
                                            all_results;
                                    mean_results = mean_of_columns all_results
                                in (Inr (),
                                    to_csv fs4 (os_path_join output_dir ''mean_results.tsv'')
                                      mean_results))))))"

text \<open>
  The body of the loop of \<^verbatim>\<open>RepeatedHoldOut.save_results\<close>, on the file system and the
  lists \<open>all_results_list\<close>, \<open>all_train_subjects_list\<close> and \<open>all_test_subjects_list\<close>. The
  scalar \<open>iteration\<close> fills a column as long as the arrays beside it.
\<close>

definition holdout_save_iteration ::
  "string \<Rightarrow> result list
     \<Rightarrow> filesystem \<times> dataframe list \<times> dataframe list \<times> dataframe list \<Rightarrow> nat
     \<Rightarrow> (error + unit) \<times> filesystem \<times> dataframe list \<times> dataframe list \<times> dataframe list" where
  "holdout_save_iteration output_dir split_results s iteration =
     (case s of (fs, all_results_list, all_train_subjects_list, all_test_subjects_list) \<Rightarrow>
        (let r = split_results ! iteration;
             iteration_dir = os_path_join output_dir (''iteration-'' @ str iteration);
             fs1 = (if \<not> os_path_exists fs iteration_dir then os_makedirs fs iteration_dir
                    else fs)
         in case pd_DataFrame
                   [(''iteration'', replicate (length (res_y_train r)) (Fin (real iteration))),
                    (''y'', label_cells (res_y_train r)),
                    (''y_hat'', label_cells (res_y_hat_train r)),
                    (''subject_index'', index_cells (res_x_index r))] of
              Inl e \<Rightarrow> (Inl e, fs1, all_results_list, all_train_subjects_list,
                         all_test_subjects_list)
            | Inr iteration_train_subjects_df \<Rightarrow>
                (let fs2 = to_csv fs1 (os_path_join iteration_dir ''train_subjects.tsv'')
                             iteration_train_subjects_df;
                     train_list = all_train_subjects_list @ [iteration_train_subjects_df]
                 in case pd_DataFrame
                           [(''iteration'', replicate (length (res_y r)) (Fin (real iteration))),
                            (''y'', label_cells (res_y r)),
                            (''y_hat'', label_cells (res_y_hat r)),
                            (''subject_index'', index_cells (res_y_index r))] of
                      Inl e \<Rightarrow> (Inl e, fs2, all_results_list, train_list, all_test_subjects_list)
                    | Inr iteration_test_subjects_df \<Rightarrow>
                        (let fs3 = to_csv fs2 (os_path_join iteration_dir ''test_subjects.tsv'')
                                     iteration_test_subjects_df;
                             iteration_results_df =
                               [(''balanced_accuracy'', [balanced_accuracy (res_evaluation r)]),
                                (''auc'', [res_auc r]),
                                (''accuracy'', [accuracy (res_evaluation r)]),
                                (''sensitivity'', [sensitivity (res_evaluation r)]),
                                (''specificity'', [specificity (res_evaluation r)]),
                                (''ppv'', [ppv (res_evaluation r)]),
                                (''npv'', [npv (res_evaluation r)]),
                                (''train_balanced_accuracy'',
                                   [balanced_accuracy (res_evaluation_train r)]),
                                (''train_accuracy'', [accuracy (res_evaluation_train r)]),
                                (''train_sensitivity'', [sensitivity (res_evaluation_train r)]),
                                (''train_specificity'', [specificity (res_evaluation_train r)]),
                                (''train_ppv'', [ppv (res_evaluation_train r)]),
                                (''train_npv'', [npv (res_evaluation_train r)])];
                             fs4 = to_csv fs3 (os_path_join iteration_dir ''results.tsv'')
                                     iteration_results_df
                         in (Inr (), fs4, all_results_list @ [iteration_results_df], train_list,
                             all_test_subjects_list @ [iteration_test_subjects_df])))))"

text \<open>
  The end of \<^verbatim>\<open>RepeatedHoldOut.save_results\<close>, from \<^verbatim>\<open>self.compute_error_variance()\<close>
  on: the two estimators update the object, and the four estimates are written as one
  row.
\<close>

definition holdout_save_variance ::
  "'svc library \<Rightarrow> 'svc RepeatedHoldOut \<Rightarrow> string \<Rightarrow> filesystem
     \<Rightarrow> (error + unit) \<times> 'svc RepeatedHoldOut \<times> filesystem" where
  "holdout_save_variance lib self output_dir fs =
     (case compute_error_variance self of
        (Inl e, self1) \<Rightarrow> (Inl e, self1, fs)
      | (Inr err, self1) \<Rightarrow>
          (case compute_accuracy_variance lib self1 of
             (Inl e, self2) \<Rightarrow> (Inl e, self2, fs)
           | (Inr acc, self2) \<Rightarrow>
               (let variance_df =
                      [(''bal_accuracy_resampled_t'', [fst acc]),
                       (''bal_accuracy_corrected_resampled_t'', [snd acc]),
                       (''error_resampled_t'', [fst err]),
                       (''error_corrected_resampled_t'', [snd err])]
                in (Inr (), self2,
                    to_csv fs (os_path_join output_dir ''variance.tsv'') variance_df))))"

definition RepeatedHoldOut_save_results ::
  "'svc library \<Rightarrow> 'svc RepeatedHoldOut \<Rightarrow> string \<Rightarrow> filesystem
     \<Rightarrow> (error + unit) \<times> 'svc RepeatedHoldOut \<times> filesystem" where
  "RepeatedHoldOut_save_results lib self output_dir fs =
     (case rh_split_results self of
        None \<Rightarrow>
          (Inl (Exception
             ''No results to save. Method validate() must be run before save_results().''),
           self, fs)
      | Some split_results \<Rightarrow>
          (case io_loop (holdout_save_iteration output_dir split_results) (fs, [], [], [])
                  [0..<length split_results] of
             (Inl e, fs1, all_results_list, all_train_subjects_list, all_test_subjects_list) \<Rightarrow>
               (Inl e, self, fs1)
           | (Inr u, fs1, all_results_list, all_train_subjects_list, all_test_subjects_list) \<Rightarrow>
               (case pd_concat all_train_subjects_list of
                  Inl e \<Rightarrow> (Inl e, self, fs1)
                | Inr all_train_subjects_df \<Rightarrow>
                    (let fs2 = to_csv fs1 (os_path_join output_dir ''train_subjects.tsv'')
                                 all_train_subjects_df
                     in case pd_concat all_test_subjects_list of
                          Inl e \<Rightarrow> (Inl e, self, fs2)
                        | Inr all_test_subjects_df \<Rightarrow>
                            (let fs3 = to_csv fs2 (os_path_join output_dir ''test_subjects.tsv'')
                                         all_test_subjects_df
                             in case pd_concat all_results_list of
                                  Inl e \<Rightarrow> (Inl e, self, fs3)
                                | Inr all_results_df \<Rightarrow>
                                    (let fs4 = to_csv fs3
                                                 (os_path_join output_dir ''results.tsv'')
                                                 all_results_df;
                                         mean_results_df = mean_of_columns all_results_df;
                                         fs5 = to_csv fs4
                                                 (os_path_join output_dir ''mean_results.tsv'')
                                                 mean_results_df
                                     in holdout_save_variance lib self output_dir fs5))))))"

section \<open>The formulas of the specification\<close>

text \<open>
  The quantities the specification names, over the real numbers: the arithmetic mean,
  the mean in log space (10 raised to the mean of the decimal logarithms) and the sample
  variance \<open>s\<^sup>2 = \<Sum>(x\<^sub>i - mean)\<^sup>2 / (J - 1)\<close>.
\<close>

definition mean :: "real list \<Rightarrow> real" where
  "mean xs = sum_list xs / real (length xs)"

definition log_space_mean :: "real list \<Rightarrow> real" where
  "log_space_mean cs = 10 powr mean (map (log 10) cs)"

definition sample_variance :: "real list \<Rightarrow> real" where
  "sample_variance xs = (\<Sum>x\<leftarrow>xs. (x - mean xs)\<^sup>2) / (real (length xs) - 1)"

text \<open>
  The winner of an inner fold in the specification's words: the candidate with the
  highest accuracy, the first one in evaluation order when several reach it.
\<close>

definition fold_winner :: "(real \<times> real) list \<Rightarrow> real \<times> real" where
  "fold_winner items = hd (filter (\<lambda>item. snd item = Max (set (map snd items))) items)"

text \<open>The items of a fold whose accuracies are all finite.\<close>

definition finite_scores :: "(real \<times> real) list \<Rightarrow> fold_scores" where
  "finite_scores items = map (\<lambda>item. (fst item, Fin (snd item))) items"

text \<open>
  Two algorithm objects agree on an outer training set: they are configured alike, their
  data have the same shape, and the labels and the kernel entries (feature rows in the
  second class) at the training indices are the same. Nothing is asked of any other
  position.
\<close>

definition agree_on_train :: "algorithm \<Rightarrow> algorithm \<Rightarrow> nat list \<Rightarrow> bool" where
  "agree_on_train a b train_index =
     (alg_kind a = alg_kind b \<and> alg_balanced a = alg_balanced b
      \<and> alg_grid_search_folds a = alg_grid_search_folds b
      \<and> alg_c_range a = alg_c_range b
      \<and> alg_n_threads a = alg_n_threads b
      \<and> length (alg_y a) = length (alg_y b)
      \<and> length (alg_data a) = length (alg_data b)
      \<and> (\<forall>i\<in>set train_index. i < length (alg_y a) \<longrightarrow> alg_y a ! i = alg_y b ! i)
      \<and> (\<forall>i\<in>set train_index. i < length (alg_data a) \<longrightarrow>
            (case alg_kind a of
               Precomputed \<Rightarrow>
                 length (alg_data a ! i) = length (alg_data b ! i)
                 \<and> (\<forall>j\<in>set train_index. j < length (alg_data a ! i) \<longrightarrow>
                       alg_data a ! i ! j = alg_data b ! i ! j)
             | Linear \<Rightarrow> alg_data a ! i = alg_data b ! i)))"

text \<open>
  The aggregate metrics table: one column per metric and one row per outer result, in
  the order of the results. \<open>kfold_metric_columns\<close> are the columns of
  \<^verbatim>\<open>KFoldCV.save_results\<close>, \<open>holdout_metric_columns\<close> those of
  \<^verbatim>\<open>RepeatedHoldOut.save_results\<close>.
\<close>

definition table_of :: "(string \<times> (result \<Rightarrow> np_float)) list \<Rightarrow> result list \<Rightarrow> dataframe" where
  "table_of columns results = map (\<lambda>col. (fst col, map (snd col) results)) columns"

definition kfold_metric_columns :: "(string \<times> (result \<Rightarrow> np_float)) list" where
  "kfold_metric_columns =
     [(''balanced_accuracy'', \<lambda>r. balanced_accuracy (res_evaluation r)),
      (''auc'', \<lambda>r. res_auc r),
      (''accuracy'', \<lambda>r. accuracy (res_evaluation r)),
      (''sensitivity'', \<lambda>r. sensitivity (res_evaluation r)),
      (''specificity'', \<lambda>r. specificity (res_evaluation r)),
      (''ppv'', \<lambda>r. ppv (res_evaluation r)),
      (''npv'', \<lambda>r. npv (res_evaluation r))]"

definition holdout_metric_columns :: "(string \<times> (result \<Rightarrow> np_float)) list" where
  "holdout_metric_columns =
     kfold_metric_columns @
     [(''train_balanced_accuracy'', \<lambda>r. balanced_accuracy (res_evaluation_train r)),
      (''train_accuracy'', \<lambda>r. accuracy (res_evaluation_train r)),
      (''train_sensitivity'', \<lambda>r. sensitivity (res_evaluation_train r)),
      (''train_specificity'', \<lambda>r. specificity (res_evaluation_train r)),
      (''train_ppv'', \<lambda>r. ppv (res_evaluation_train r)),
      (''train_npv'', \<lambda>r. npv (res_evaluation_train r))]"

section \<open>Example objects\<close>

text \<open>
  A stand-in for the collaborators, on which the module can be run by hand: the
  classifier is the record of what it was fitted with, it predicts label 1 for every
  row, the scores are constants, the \<open>i\<close>-th inner fold tests sample \<open>i\<close> and trains on
  the others, and every holdout split tests the last sample.
\<close>

datatype example_svc = Fitted kernel_kind bool np_float matrix "label list"

definition example_metrics :: metrics where
  "example_metrics =
     \<lparr> balanced_accuracy = Fin (1/2), accuracy = Fin (1/2), sensitivity = Fin 1,
       specificity = Fin 0, ppv = Fin (1/2), npv = NaN \<rparr>"

definition example_library :: "example_svc library" where
  "example_library =
     \<lparr> SVC_fit = (\<lambda>k balanced c X y. Inr (Fitted k balanced c X y)),
       SVC_predict = (\<lambda>svc X. Inr (replicate (length X) 1)),
       SVC_predict_proba = (\<lambda>svc X. Inr (replicate (length X) (Fin 1))),
       roc_auc_score = (\<lambda>y proba. Inr (Fin (1/2))),
       evaluate_prediction = (\<lambda>y y_hat. Inr example_metrics),
       StratifiedKFold_split =
         (\<lambda>n y. Inr (map (\<lambda>i. (filter (\<lambda>j. j \<noteq> i) [0..<length y], [i])) [0..<nat n])),
       StratifiedShuffleSplit_split =
         (\<lambda>n t y. Inr (replicate (nat n) ([0..<length y - 1], [length y - 1]))) \<rparr>"

definition example_algorithm :: algorithm where
  "example_algorithm =
     \<lparr> alg_kind = Precomputed,
       alg_data = [[1, 0], [0, 1]],
       alg_y = [0, 1],
       alg_balanced = True,
       alg_grid_search_folds = 1,
       alg_c_range = [1],
       alg_n_threads = 1 \<rparr>"

text \<open>
  Two kernels that agree on rows and columns 0 and 1 and differ on row and column 2,
  with label vectors that differ at position 2 only.
\<close>

definition example_algorithm_a :: algorithm where
  "example_algorithm_a =
     example_algorithm\<lparr>alg_data := [[2, 1, 5], [1, 2, 6], [5, 6, 9]], alg_y := [0, 1, 1]\<rparr>"

definition example_algorithm_b :: algorithm where
  "example_algorithm_b =
     example_algorithm\<lparr>alg_data := [[2, 1, 0], [1, 2, 0], [7, 8, 3]], alg_y := [0, 1, 0]\<rparr>"

text \<open>An outer fold result with the given selected C, inner accuracy and predictions.\<close>

definition example_result :: "real \<Rightarrow> real \<Rightarrow> label list \<Rightarrow> label list \<Rightarrow> result" where
  "example_result c acc y y_hat =
     \<lparr> res_best_parameter = \<lparr> bp_c = Fin c, bp_balanced_accuracy = Fin acc \<rparr>,
       res_evaluation = example_metrics,
       res_evaluation_train = example_metrics,
       res_y_hat = y_hat,
       res_y_hat_train = [1],
       res_y = y,
       res_y_train = [0],
       res_y_index = [1, 2],
       res_x_index = [0],
       res_auc = Fin (1/2) \<rparr>"

definition example_results :: "result list" where
  "example_results =
     [example_result 10 (6/10) [0, 1] [0, 1],
      example_result 100 (7/10) [0, 1] [1, 1],
      example_result 1000 (8/10) [0, 1] [1, 0]]"

definition example_holdout :: "result list \<Rightarrow> example_svc RepeatedHoldOut" where
  "example_holdout results =
     (RepeatedHoldOut_init example_algorithm (int (length results)) (1/5))
       \<lparr>rh_split_results := Some results\<rparr>"

text \<open>One call of \<^verbatim>\<open>validate\<close> of each class on two samples, with one outer split.\<close>

definition example_kfold_run ::
  "example_svc KFoldCV
     \<Rightarrow> (error + (example_svc \<times> best_parameter \<times> result list)) \<times> example_svc KFoldCV" where
  "example_kfold_run self =
     KFoldCV_validate example_library self [0, 1] 1 1 (Some [([0], [1])])"

definition example_holdout_run ::
  "example_svc RepeatedHoldOut
     \<Rightarrow> (error + (example_svc \<times> best_parameter \<times> result list)) \<times> example_svc RepeatedHoldOut" where
  "example_holdout_run self = RepeatedHoldOut_validate example_library self [0, 1] 1 None True"

text \<open>
  The same stand-in with the parameter validation of scikit-learn: fitting raises
  unless C is a positive number.
\<close>

definition strict_library :: "example_svc library" where
  "strict_library =
     example_library
       \<lparr> SVC_fit := (\<lambda>k balanced c X y.
            if (case c of Fin a \<Rightarrow> 0 < a | PInf \<Rightarrow> True | NInf \<Rightarrow> False | NaN \<Rightarrow> False)
            then Inr (Fitted k balanced c X y)
            else Inl (ValueError ''The C parameter of SVC must be a float in the range (0.0, inf)'')) \<rparr>"

text \<open>An empty file system.\<close>

definition example_filesystem :: filesystem where
  "example_filesystem = \<lparr> fs_dirs = [], fs_files = [] \<rparr>"

section \<open>Auxiliary facts\<close>

subsection \<open>Arithmetic on finite floats\<close>

lemma foldl_np_add_Fin: "foldl np_add (Fin a) (map Fin xs) = Fin (a + sum_list xs)"
  by (induction xs arbitrary: a) (simp_all add: add.assoc)

lemma np_sum_Fin: "np_sum (map Fin xs) = Fin (sum_list xs)"
  by (simp add: np_sum_def foldl_np_add_Fin)

lemma np_mean_Fin: "xs \<noteq> [] \<Longrightarrow> np_mean (map Fin xs) = Fin (mean xs)"
  by (simp add: np_mean_def np_sum_Fin mean_def)

lemma squares_Fin:
  "map (\<lambda>x. np_mul (np_sub x (Fin m)) (np_sub x (Fin m))) (map Fin xs)
     = map Fin (map (\<lambda>x. (x - m)\<^sup>2) xs)"
  by (simp add: np_sub_def power2_eq_square)

lemma sum_squares_Fin:
  "np_sum (map (\<lambda>x. np_mul (np_sub x (Fin m)) (np_sub x (Fin m))) (map Fin xs))
     = Fin (\<Sum>x\<leftarrow>xs. (x - m)\<^sup>2)"
  unfolding squares_Fin np_sum_Fin ..

lemma np_log10_map_Fin:
  "\<forall>c\<in>set cs. 0 < c \<Longrightarrow> map np_log10 (map Fin cs) = map Fin (map (log 10) cs)"
  by (induction cs) simp_all

lemma log_space_mean_np:
  assumes "cs \<noteq> []" "\<forall>c\<in>set cs. 0 < c"
  shows "np_power10 (np_mean (map np_log10 (map Fin cs))) = Fin (log_space_mean cs)"
proof -
  have ne: "map (log 10) cs \<noteq> []" using assms(1) by simp
  show ?thesis
    unfolding np_log10_map_Fin [OF assms(2)] np_mean_Fin [OF ne] log_space_mean_def
    by simp
qed

lemma log10_100: "log 10 100 = (2::real)"
  using log_pow_cancel [of 10 2] by simp

lemma log10_1000: "log 10 1000 = (3::real)"
  using log_pow_cancel [of 10 3] by simp

lemma ten_powr_2: "(10::real) powr 2 = 100"
proof -
  have "(10::real) powr 2 = 10 ^ 2" by (rule powr_numeral) simp
  then show ?thesis by simp
qed

subsection \<open>Loops\<close>

lemma for_each_length: "for_each f xs = Inr ys \<Longrightarrow> length ys = length xs"
  by (induction xs arbitrary: ys) (auto split: sum.splits)

lemma for_each_map_agree:
  "\<forall>x\<in>set xs. f (g x) = f (h x) \<Longrightarrow> for_each f (map g xs) = for_each f (map h xs)"
  by (induction xs) (auto split: sum.splits)

subsection \<open>The mismatch count\<close>

lemma np_where_zip:
  "length b = length a \<Longrightarrow>
   np_where (map (\<lambda>(u, v). u \<noteq> v) (zip a b)) = filter (\<lambda>i. a ! i \<noteq> b ! i) [0..<length a]"
  unfolding np_where_def
  by (auto intro!: filter_cong)

lemma length_filter_upt: "length (filter P [0..<n]) = card {i. i < n \<and> P i}"
  using length_filter_conv_card [of P "[0..<n]"]
  by (auto intro!: arg_cong [where f = card])

subsection \<open>The variance reduction\<close>

lemma compute_variance_formula:
  assumes "rh_split_results self = Some rs" "length xs = length rs" "2 \<le> length xs"
    "rh_test_size self \<noteq> 1"
  shows "compute_variance self (map Fin xs) =
     Inr (Fin (sample_variance xs / real (length xs)),
          Fin (sample_variance xs
                * (1 / real (length xs) + rh_test_size self / (1 - rh_test_size self))))"
proof -
  have ne: "xs \<noteq> []" using assms(3) by auto
  have J: "real (length rs) - 1 \<noteq> 0" "real (length rs) \<noteq> 0" using assms(2,3) by auto
  define sq where "sq = Fin (\<Sum>x\<leftarrow>xs. (x - mean xs)\<^sup>2)"
  have "compute_variance self (map Fin xs) =
      and_then (py_truediv 1 (real_of_int (int (length rs)))) (\<lambda>a.
      and_then (py_truediv (rh_test_size self) (1 - rh_test_size self)) (\<lambda>b.
        Inr (np_div (np_div sq (Fin (real_of_int (int (length rs) - 1))))
               (Fin (real_of_int (int (length rs)))),
             np_mul (Fin (a + b)) (np_div sq (Fin (real_of_int (int (length rs) - 1)))))))"
    unfolding compute_variance_def assms(1) option.case Let_def np_mean_Fin [OF ne]
      sum_squares_Fin sq_def ..
  then show ?thesis
    using assms(2-4) J
    by (simp add: sq_def py_truediv_def and_then_def sample_variance_def)
qed

lemma np_sub_self_squared_sum:
  "np_div (np_sum [np_mul (np_sub x (np_mean [x])) (np_sub x (np_mean [x]))]) (Fin 0) = NaN"
  by (cases x) (simp_all add: np_mean_def np_sum_def np_sub_def signed_inf_def)

lemma compute_variance_single:
  assumes "rh_split_results self = Some [r]" "rh_test_size self \<noteq> 1"
  shows "compute_variance self [x] = Inr (NaN, NaN)"
proof -
  have "compute_variance self [x] =
      and_then (py_truediv 1 1) (\<lambda>a.
      and_then (py_truediv (rh_test_size self) (1 - rh_test_size self)) (\<lambda>b.
        Inr (np_div
               (np_div (np_sum [np_mul (np_sub x (np_mean [x])) (np_sub x (np_mean [x]))]) (Fin 0))
               (Fin 1),
             np_mul (Fin (a + b))
               (np_div (np_sum [np_mul (np_sub x (np_mean [x])) (np_sub x (np_mean [x]))])
                  (Fin 0)))))"
    by (simp add: compute_variance_def assms(1) Let_def)
  then show ?thesis
    using assms(2) unfolding np_sub_self_squared_sum
    by (simp add: py_truediv_def and_then_def)
qed

subsection \<open>The winner of a fold\<close>

lemma fold_winner_Cons:
  "fold_winner (x # xs) =
     (if xs = [] \<or> (\<forall>a\<in>set (map snd xs). a \<le> snd x) then x else fold_winner xs)"
proof (cases "xs = []")
  case True
  then show ?thesis by (simp add: fold_winner_def)
next
  case False
  then have ne: "set (map snd xs) \<noteq> {}" by simp
  have M: "Max (set (map snd (x # xs))) = max (snd x) (Max (set (map snd xs)))"
    using ne by simp
  show ?thesis
  proof (cases "\<forall>a\<in>set (map snd xs). a \<le> snd x")
    case True
    then have "Max (set (map snd xs)) \<le> snd x" using ne by simp
    then have "max (snd x) (Max (set (map snd xs))) = snd x" by (simp add: max_def)
    then show ?thesis using True unfolding fold_winner_def M by simp
  next
    case F: False
    then have lt: "snd x < Max (set (map snd xs))" using ne by (force simp: Max_gr_iff not_le)
    then have "max (snd x) (Max (set (map snd xs))) = Max (set (map snd xs))"
      by (simp add: max_def)
    then show ?thesis using F False lt unfolding fold_winner_def M by auto
  qed
qed

lemma best_of_fold_winner:
  "best_of_fold (bc, Fin ba) (finite_scores items) =
     (if \<exists>a\<in>set (map snd items). ba < a
      then (fst (fold_winner items), Fin (snd (fold_winner items)))
      else (bc, Fin ba))"
proof (induction items arbitrary: bc ba)
  case Nil
  then show ?case by (simp add: finite_scores_def)
next
  case (Cons x xs)
  obtain c a where x: "x = (c, a)" by (cases x)
  have IH: "\<And>bc ba. best_of_fold (bc, Fin ba) (finite_scores xs) =
     (if \<exists>a\<in>set (map snd xs). ba < a
      then (fst (fold_winner xs), Fin (snd (fold_winner xs)))
      else (bc, Fin ba))" using Cons.IH by blast
  have step: "best_of_fold (bc, Fin ba) (finite_scores (x # xs)) =
      (if ba < a then best_of_fold (c, Fin a) (finite_scores xs)
       else best_of_fold (bc, Fin ba) (finite_scores xs))"
    by (simp add: finite_scores_def x)
  show ?case
  proof (cases "ba < a")
    case True
    then show ?thesis
      unfolding step IH fold_winner_Cons
      by (auto simp: x not_le not_less)
  next
    case False
    then show ?thesis
      unfolding step IH fold_winner_Cons
      by (force simp: x not_le not_less)
  qed
qed

lemma best_of_fold_snoc:
  "best_of_fold s (items @ [(c, acc)]) =
     (if np_greater acc (snd (best_of_fold s items)) then (c, acc) else best_of_fold s items)"
proof (induction items arbitrary: s)
  case Nil
  then show ?case by (cases s) simp
next
  case (Cons x xs)
  then show ?case by (cases s; cases x) simp
qed

lemma fold_winner_first_max:
  assumes "items \<noteq> []"
  shows "\<exists>i<length items. items ! i = fold_winner items
           \<and> (\<forall>j<length items. snd (items ! j) \<le> snd (fold_winner items))
           \<and> (\<forall>j<i. snd (items ! j) < snd (fold_winner items))"
  using assms
proof (induction items)
  case Nil
  then show ?case by simp
next
  case (Cons x xs)
  show ?case
  proof (cases "xs = [] \<or> (\<forall>a\<in>set (map snd xs). a \<le> snd x)")
    case True
    then have w: "fold_winner (x # xs) = x" by (simp add: fold_winner_Cons)
    have "\<forall>j<length (x # xs). snd ((x # xs) ! j) \<le> snd x"
      using True by (auto simp: nth_Cons')
    then show ?thesis unfolding w by (intro exI [of _ 0]) simp
  next
    case False
    then have w: "fold_winner (x # xs) = fold_winner xs" and ne: "xs \<noteq> []"
      by (auto simp: fold_winner_Cons)
    from Cons.IH [OF ne] obtain i where i: "i < length xs" "xs ! i = fold_winner xs"
      "\<forall>j<length xs. snd (xs ! j) \<le> snd (fold_winner xs)"
      "\<forall>j<i. snd (xs ! j) < snd (fold_winner xs)" by blast
    from False obtain a where a: "a \<in> set (map snd xs)" "snd x < a" by (auto simp: not_le)
    then obtain j where "j < length xs" "snd (xs ! j) = a"
      by (auto simp: in_set_conv_nth)
    with i(3) a have lt: "snd x < snd (fold_winner xs)" by force
    show ?thesis unfolding w
      apply (intro exI [of _ "Suc i"])
      using i lt by (auto simp: nth_Cons' less_Suc_eq_0_disj)
  qed
qed

lemma fold_winner_in_set: "items \<noteq> [] \<Longrightarrow> fold_winner items \<in> set items"
  using fold_winner_first_max [of items] by (metis nth_mem)

lemma collect_winners_eq:
  "collect_winners (cs, accs) folds =
     (cs @ map (\<lambda>f. fst (best_of_fold (-1, Fin (-1)) (snd f))) folds,
      accs @ map (\<lambda>f. snd (best_of_fold (-1, Fin (-1)) (snd f))) folds)"
  by (induction folds arbitrary: cs accs) (auto split: prod.splits)

lemma foldl_append_best:
  "foldl append_best (cs, accs) rs =
     (cs @ map (\<lambda>r. bp_c (res_best_parameter r)) rs,
      accs @ map (\<lambda>r. bp_balanced_accuracy (res_best_parameter r)) rs)"
  by (induction rs arbitrary: cs accs) (simp_all add: append_best_def)

lemma apply_best_parameters_unfolded:
  "apply_best_parameters lib self rs =
     and_then
       (SVC_fit lib (alg_kind self) (alg_balanced self)
          (np_power10 (np_mean (map np_log10 (map (\<lambda>r. bp_c (res_best_parameter r)) rs))))
          (alg_data self) (alg_y self))
       (\<lambda>svc. Inr (svc,
          \<lparr> bp_c = np_power10 (np_mean (map np_log10 (map (\<lambda>r. bp_c (res_best_parameter r)) rs))),
            bp_balanced_accuracy =
              np_mean (map (\<lambda>r. bp_balanced_accuracy (res_best_parameter r)) rs) \<rparr>))"
  unfolding apply_best_parameters_def foldl_append_best by (simp add: Let_def)

subsection \<open>The validation drivers\<close>

lemma holdout_dispatch_not_nested:
  assumes "0 < n"
  shows "holdout_dispatch lib alg cv n False =
           Inl (if cv = [] then IndexError else Exception ''We always do nested CV'')"
proof -
  from assms have "[0..<nat n] = 0 # [1..<nat n]" by (simp add: upt_conv_Cons)
  then show ?thesis
    by (simp add: holdout_dispatch_def split: prod.splits)
qed

lemma KFoldCV_validate_Inr:
  assumes "KFoldCV_validate lib self y n_folds n_threads splits_indices = (Inr out, self')"
    and "kf_fold_results self = Some old"
  shows "\<exists>new. length new = nat n_folds
         \<and> apply_best_parameters lib (kf_ml_algorithm self) (old @ new) = Inr (fst out, fst (snd out))
         \<and> snd (snd out) = old @ new
         \<and> kf_fold_results self' = Some (old @ new)
         \<and> kf_ml_algorithm self' = kf_ml_algorithm self"
  using assms
  unfolding KFoldCV_validate_def Let_def and_then_def
  by (auto split: sum.splits option.splits prod.splits
      dest: for_each_length simp: kfold_dispatch_def)

lemma RepeatedHoldOut_validate_Inr:
  assumes "RepeatedHoldOut_validate lib self y n_threads splits_indices inner_cv = (Inr out, self')"
    and "rh_split_results self = Some old"
  shows "\<exists>new. length new = nat (rh_n_iterations self)
         \<and> apply_best_parameters lib (rh_ml_algorithm self) (old @ new) = Inr (fst out, fst (snd out))
         \<and> snd (snd out) = old @ new
         \<and> rh_split_results self' = Some (old @ new)
         \<and> rh_ml_algorithm self' = rh_ml_algorithm self
         \<and> rh_n_iterations self' = rh_n_iterations self"
  using assms
  unfolding RepeatedHoldOut_validate_def Let_def and_then_def
  by (auto split: sum.splits option.splits prod.splits
      dest: for_each_length simp: holdout_dispatch_def)

subsection \<open>Two calls of validate on the example objects\<close>

lemmas example_run_simps =
  example_kfold_run_def example_holdout_run_def KFoldCV_validate_def RepeatedHoldOut_validate_def
  KFoldCV_init_def RepeatedHoldOut_init_def kfold_dispatch_def holdout_dispatch_def
  evaluate_def evaluate_select_def example_library_def example_algorithm_def
  slice_def np_take_def and_then_def inner_fold_step_def ThreadPool_def
  candidate_step_def grid_search_def launch_svc_def dict_get_def select_best_parameter_def
  apply_best_parameters_def append_best_def
  np_mean_def np_sum_def Let_def example_metrics_def

lemma kf_run1: "\<exists>out. example_kfold_run (KFoldCV_init example_algorithm)
      = (Inr out, snd (example_kfold_run (KFoldCV_init example_algorithm)))"
  by (simp add: example_run_simps)

lemma kf_run2: "\<exists>out. example_kfold_run (snd (example_kfold_run (KFoldCV_init example_algorithm)))
      = (Inr out, snd (example_kfold_run (snd (example_kfold_run (KFoldCV_init example_algorithm)))))"
  by (simp add: example_run_simps)

lemma rh_run1: "\<exists>out. example_holdout_run (RepeatedHoldOut_init example_algorithm 1 (1/5))
      = (Inr out, snd (example_holdout_run (RepeatedHoldOut_init example_algorithm 1 (1/5))))"
  by (simp add: example_run_simps)

lemma rh_run2: "\<exists>out. example_holdout_run (snd (example_holdout_run (RepeatedHoldOut_init example_algorithm 1 (1/5))))
      = (Inr out, snd (example_holdout_run (snd (example_holdout_run (RepeatedHoldOut_init example_algorithm 1 (1/5))))))"
  by (simp add: example_run_simps)

subsection \<open>Slices of data that agree on the training indices\<close>

lemma np_take_agree:
  assumes "length a = length b" and "\<forall>i\<in>set idx. i < length a \<longrightarrow> a ! i = b ! i"
  shows "np_take a idx = np_take b idx"
  using assms by (auto simp: np_take_def list_all_iff)

lemma slice_agree:
  assumes "agree_on_train a b train_index"
  shows "slice (alg_kind a) (alg_data a) train_index train_index =
         slice (alg_kind b) (alg_data b) train_index train_index"
proof (cases "alg_kind a")
  case Precomputed
  with assms have k: "alg_kind b = Precomputed" and len: "length (alg_data a) = length (alg_data b)"
    and rows: "\<forall>i\<in>set train_index. i < length (alg_data a) \<longrightarrow>
                 length (alg_data a ! i) = length (alg_data b ! i)
                 \<and> (\<forall>j\<in>set train_index. j < length (alg_data a ! i) \<longrightarrow>
                       alg_data a ! i ! j = alg_data b ! i ! j)"
    by (auto simp: agree_on_train_def)
  show ?thesis
  proof (cases "list_all (\<lambda>i. i < length (alg_data a)) train_index")
    case True
    then have "\<forall>i\<in>set train_index. np_take (alg_data a ! i) train_index
                                     = np_take (alg_data b ! i) train_index"
      using rows by (auto simp: list_all_iff intro!: np_take_agree)
    then have "for_each (\<lambda>r. np_take r train_index) (map (\<lambda>i. alg_data a ! i) train_index)
             = for_each (\<lambda>r. np_take r train_index) (map (\<lambda>i. alg_data b ! i) train_index)"
      by (rule for_each_map_agree)
    then show ?thesis using True len
      by (simp add: slice_def Precomputed k np_take_def and_then_def)
  next
    case False
    then show ?thesis using len by (simp add: slice_def Precomputed k np_take_def and_then_def)
  qed
next
  case Linear
  with assms have k: "alg_kind b = Linear" and len: "length (alg_data a) = length (alg_data b)"
    and rows: "\<forall>i\<in>set train_index. i < length (alg_data a) \<longrightarrow> alg_data a ! i = alg_data b ! i"
    by (auto simp: agree_on_train_def)
  show ?thesis unfolding slice_def Linear k kernel_kind.case
    using len rows by (rule np_take_agree)
qed

lemma labels_agree:
  assumes "agree_on_train a b train_index"
  shows "np_take (alg_y a) train_index = np_take (alg_y b) train_index"
  using assms by (intro np_take_agree) (auto simp: agree_on_train_def)

lemma launch_svc_agree:
  assumes "alg_kind a = alg_kind b" "alg_balanced a = alg_balanced b"
  shows "launch_svc lib a = launch_svc lib b"
  using assms by (simp add: fun_eq_iff launch_svc_def)

lemma candidate_step_agree:
  assumes "alg_kind a = alg_kind b" "alg_balanced a = alg_balanced b"
  shows "candidate_step lib a = candidate_step lib b"
  by (simp add: fun_eq_iff candidate_step_def grid_search_def launch_svc_agree [OF assms])

lemma inner_fold_step_agree:
  assumes "alg_kind a = alg_kind b" "alg_balanced a = alg_balanced b" "alg_c_range a = alg_c_range b"
  shows "inner_fold_step lib a = inner_fold_step lib b"
  by (simp add: fun_eq_iff inner_fold_step_def candidate_step_agree [OF assms(1,2)] assms(1,3))

lemma evaluate_select_agree:
  assumes "agree_on_train a b train_index"
  shows "evaluate_select lib a train_index = evaluate_select lib b train_index"
proof -
  from assms have f: "alg_kind a = alg_kind b" "alg_balanced a = alg_balanced b"
    "alg_c_range a = alg_c_range b" "alg_grid_search_folds a = alg_grid_search_folds b"
    "alg_n_threads a = alg_n_threads b"
    by (auto simp: agree_on_train_def)
  show ?thesis
    unfolding evaluate_select_def slice_agree [OF assms] labels_agree [OF assms]
      inner_fold_step_agree [OF f(1-3)] f(4,5) ..
qed

lemma evaluate_best_parameter:
  assumes "evaluate lib a train_index test_index = Inr r"
  shows "\<exists>outer_kernel y_train.
           evaluate_select lib a train_index = Inr (res_best_parameter r, outer_kernel, y_train)"
  using assms unfolding evaluate_def and_then_def
  by (auto split: sum.splits prod.splits)

subsection \<open>The outer evaluation step on the example kernels\<close>

lemmas example_evaluate_simps =
  evaluate_def evaluate_select_def example_library_def example_algorithm_def
  example_algorithm_a_def example_algorithm_b_def
  slice_def np_take_def and_then_def inner_fold_step_def ThreadPool_def
  candidate_step_def grid_search_def launch_svc_def dict_get_def select_best_parameter_def
  np_mean_def np_sum_def Let_def example_metrics_def

lemma example_evaluate_a:
  "\<exists>r. evaluate example_library example_algorithm_a [0, 1] [2] = Inr r"
  by (simp add: example_evaluate_simps)

lemma example_evaluate_b:
  "\<exists>r. evaluate example_library example_algorithm_b [0, 1] [2] = Inr r"
  by (simp add: example_evaluate_simps)

subsection \<open>Objects without iterations hold no results\<close>

lemma apply_best_parameters_Nil:
  "apply_best_parameters lib alg [] =
     and_then (SVC_fit lib (alg_kind alg) (alg_balanced alg) NaN (alg_data alg) (alg_y alg))
       (\<lambda>svc. Inr (svc, \<lparr> bp_c = NaN, bp_balanced_accuracy = NaN \<rparr>))"
  by (simp add: apply_best_parameters_def Let_def np_mean_def np_sum_def signed_inf_def)

lemma holdout_dispatch_no_iterations:
  "n \<le> 0 \<Longrightarrow> holdout_dispatch lib alg cv n inner_cv = Inr []"
  by (simp add: holdout_dispatch_def)

lemma RepeatedHoldOut_init_fresh:
  "rh_split_results (RepeatedHoldOut_init alg n t) = Some []"
  by (simp add: RepeatedHoldOut_init_def)

lemma RepeatedHoldOut_validate_keeps_iterations:
  "rh_n_iterations (snd (RepeatedHoldOut_validate lib self y n_threads splits_indices inner_cv))
     = rh_n_iterations self"
  by (simp add: RepeatedHoldOut_validate_def Let_def
      split: sum.splits option.splits prod.splits)

lemma RepeatedHoldOut_validate_keeps_fresh:
  assumes "rh_n_iterations self \<le> 0" and "rh_split_results self = Some []"
  shows "rh_split_results
           (snd (RepeatedHoldOut_validate lib self y n_threads splits_indices inner_cv)) = Some []"
  using assms
  by (simp add: RepeatedHoldOut_validate_def Let_def holdout_dispatch_no_iterations and_then_def
      split: sum.splits option.splits prod.splits)

lemma estimators_keep_results:
  "rh_split_results (snd (compute_error_variance self)) = rh_split_results self"
  "rh_n_iterations (snd (compute_error_variance self)) = rh_n_iterations self"
  "rh_split_results (snd (compute_accuracy_variance lib self)) = rh_split_results self"
  "rh_n_iterations (snd (compute_accuracy_variance lib self)) = rh_n_iterations self"
  by (simp_all add: compute_error_variance_def compute_accuracy_variance_def
      split: sum.splits option.splits prod.splits)

lemma holdout_save_variance_keeps_results:
  "rh_split_results (fst (snd (holdout_save_variance lib self output_dir fs)))
     = rh_split_results self
   \<and> rh_n_iterations (fst (snd (holdout_save_variance lib self output_dir fs)))
     = rh_n_iterations self"
proof -
  obtain e1 s1 where c1: "compute_error_variance self = (e1, s1)" by (cases "compute_error_variance self")
  obtain e2 s2 where c2: "compute_accuracy_variance lib s1 = (e2, s2)"
    by (cases "compute_accuracy_variance lib s1")
  have k1: "rh_split_results s1 = rh_split_results self" "rh_n_iterations s1 = rh_n_iterations self"
    using estimators_keep_results(1,2) [of self] c1 by simp_all
  have k2: "rh_split_results s2 = rh_split_results s1" "rh_n_iterations s2 = rh_n_iterations s1"
    using estimators_keep_results(3,4) [of lib s1] c2 by simp_all
  show ?thesis
    using k1 k2 by (simp add: holdout_save_variance_def c1 c2 Let_def split: sum.splits)
qed

lemma RepeatedHoldOut_save_results_keeps_results:
  "rh_split_results (fst (snd (RepeatedHoldOut_save_results lib self output_dir fs)))
     = rh_split_results self
   \<and> rh_n_iterations (fst (snd (RepeatedHoldOut_save_results lib self output_dir fs)))
     = rh_n_iterations self"
  using holdout_save_variance_keeps_results [of lib self output_dir]
  by (simp add: RepeatedHoldOut_save_results_def Let_def
      split: sum.splits option.splits prod.splits)

subsection \<open>The tables that save_results writes\<close>

lemma map_of_dict_set: "map_of (dict_set d k v) k' = (if k' = k then Some v else map_of d k')"
  by (induction d) auto

lemma file_after_to_csv:
  "map_of (fs_files (to_csv fs path df)) path' =
     (if path' = path then Some df else map_of (fs_files fs) path')"
  by (simp add: to_csv_def map_of_dict_set)

lemma os_path_join_inject: "os_path_join dir a = os_path_join dir b \<longleftrightarrow> a = b"
proof (cases "dir = []")
  case True
  then show ?thesis by (simp add: os_path_join_def)
next
  case False
  show ?thesis
  proof (cases "last dir = CHR ''/''")
    case True
    with False show ?thesis by (simp only: os_path_join_def if_False if_True same_append_eq simp_thms)
  next
    case slash: False
    with False show ?thesis by (simp only: os_path_join_def if_False same_append_eq simp_thms)
  qed
qed

lemma map_nth_all: "map (\<lambda>i. f (xs ! i)) [0..<length xs] = map f xs"
proof -
  have "map f xs = map f (map (\<lambda>i. xs ! i) [0..<length xs])" by (simp only: map_nth)
  also have "\<dots> = map (\<lambda>i. f (xs ! i)) [0..<length xs]" by (simp only: map_map comp_def)
  finally show ?thesis by simp
qed

lemma remdups_concat_replicate:
  "distinct xs \<Longrightarrow> 0 < n \<Longrightarrow> remdups (concat (replicate n xs)) = xs"
proof (induction n)
  case 0
  then show ?case by simp
next
  case (Suc n)
  show ?case
  proof (cases "n = 0")
    case True
    with Suc.prems show ?thesis by (simp add: distinct_remdups_id)
  next
    case False
    then have "set (concat (replicate n xs)) = set xs" by auto
    then have "filter (\<lambda>x. x \<notin> set (concat (replicate n xs))) xs = []" by simp
    with Suc False show ?thesis by (simp add: remdups_append)
  qed
qed

lemma map_of_row:
  "distinct (map fst columns) \<Longrightarrow> col \<in> set columns \<Longrightarrow>
   map_of (map (\<lambda>c. (fst c, [snd c r])) columns) (fst col) = Some [snd col r]"
  by (induction columns) (auto simp: rev_image_eqI)

lemma pd_concat_rows:
  assumes "distinct (map fst columns)" and "results \<noteq> []"
  shows "pd_concat (map (\<lambda>r. map (\<lambda>c. (fst c, [snd c r])) columns) results)
           = Inr (table_of columns results)"
proof -
  let ?row = "\<lambda>r. map (\<lambda>c. (fst c, [snd c r])) columns"
  have "map (map fst) (map ?row results) = replicate (length results) (map fst columns)"
    by (simp add: comp_def map_replicate_const)
  then have names: "remdups (concat (map (map fst) (map ?row results))) = map fst columns"
    using assms by (simp add: remdups_concat_replicate)
  have cells: "concat (map (\<lambda>df. case map_of df (fst col) of
                                     Some cells \<Rightarrow> cells
                                   | None \<Rightarrow> replicate (n_rows df) NaN) (map ?row results))
               = map (snd col) results" if "col \<in> set columns" for col
    using map_of_row [OF assms(1) that] by (induction results) simp_all
  have "pd_concat (map ?row results) =
          Inr (map (\<lambda>name. (name, concat (map (\<lambda>df. case map_of df name of
                                     Some cells \<Rightarrow> cells
                                   | None \<Rightarrow> replicate (n_rows df) NaN) (map ?row results))))
                (map fst columns))"
    using assms(2) unfolding pd_concat_def names by simp
  also have "\<dots> = Inr (table_of columns results)"
    using cells by (simp add: table_of_def comp_def)
  finally show ?thesis .
qed

lemma distinct_metric_columns:
  "distinct (map fst kfold_metric_columns)" "distinct (map fst holdout_metric_columns)"
  by (simp_all add: holdout_metric_columns_def kfold_metric_columns_def)

lemma kfold_loop_frames:
  "io_loop (kfold_save_fold container_dir rs) (fs, subjects, frames) idx
     = (Inr u, fs', subjects', frames') \<Longrightarrow>
   frames' = frames @ map (\<lambda>i. map (\<lambda>c. (fst c, [snd c (rs ! i)])) kfold_metric_columns) idx"
proof (induction idx arbitrary: fs subjects frames)
  case Nil
  then show ?case by simp
next
  case (Cons i idx)
  from Cons.prems obtain fs1 subjects1 frames1 where
    step: "kfold_save_fold container_dir rs (fs, subjects, frames) i
             = (Inr (), fs1, subjects1, frames1)"
    and rest: "io_loop (kfold_save_fold container_dir rs) (fs1, subjects1, frames1) idx
             = (Inr u, fs', subjects', frames')"
    by (auto split: sum.splits prod.splits)
  from step have "frames1 = frames @ [map (\<lambda>c. (fst c, [snd c (rs ! i)])) kfold_metric_columns]"
    by (auto simp: kfold_save_fold_def Let_def kfold_metric_columns_def split: sum.splits)
  with Cons.IH [OF rest] show ?case by simp
qed

lemma holdout_loop_frames:
  "io_loop (holdout_save_iteration output_dir rs) (fs, frames, train, test) idx
     = (Inr u, fs', frames', train', test') \<Longrightarrow>
   frames' = frames @ map (\<lambda>i. map (\<lambda>c. (fst c, [snd c (rs ! i)])) holdout_metric_columns) idx"
proof (induction idx arbitrary: fs frames train test)
  case Nil
  then show ?case by simp
next
  case (Cons i idx)
  from Cons.prems obtain fs1 frames1 train1 test1 where
    step: "holdout_save_iteration output_dir rs (fs, frames, train, test) i
             = (Inr (), fs1, frames1, train1, test1)"
    and rest: "io_loop (holdout_save_iteration output_dir rs) (fs1, frames1, train1, test1) idx
             = (Inr u, fs', frames', train', test')"
    by (auto split: sum.splits prod.splits)
  from step have "frames1 = frames @ [map (\<lambda>c. (fst c, [snd c (rs ! i)])) holdout_metric_columns]"
    by (auto simp: holdout_save_iteration_def Let_def holdout_metric_columns_def
        kfold_metric_columns_def split: sum.splits)
  with Cons.IH [OF rest] show ?case by simp
qed

lemma KFoldCV_save_results_tables:
  assumes "kf_fold_results self = Some rs"
    and "KFoldCV_save_results self output_dir fs = (Inr (), fs')"
  shows "map_of (fs_files fs') (os_path_join output_dir ''results.tsv'')
           = Some (table_of kfold_metric_columns rs)
       \<and> map_of (fs_files fs') (os_path_join output_dir ''mean_results.tsv'')
           = Some (mean_of_columns (table_of kfold_metric_columns rs))"
proof -
  define cd where "cd = os_path_join output_dir ''folds''"
  define fs1 where "fs1 = (if \<not> os_path_exists fs cd then os_makedirs fs cd else fs)"
  from assms obtain fs2 subjects frames all_subjects all_results where
    loop: "io_loop (kfold_save_fold cd rs) (fs1, [], []) [0..<length rs]
             = (Inr (), fs2, subjects, frames)"
    and subj: "pd_concat subjects = Inr all_subjects"
    and res: "pd_concat frames = Inr all_results"
    and final: "fs' = to_csv (to_csv (to_csv fs2 (os_path_join output_dir ''subjects.tsv'')
                                 all_subjects)
                         (os_path_join output_dir ''results.tsv'') all_results)
                 (os_path_join output_dir ''mean_results.tsv'') (mean_of_columns all_results)"
    unfolding KFoldCV_save_results_def cd_def fs1_def Let_def
    by (auto split: sum.splits prod.splits option.splits)
  from kfold_loop_frames [OF loop]
  have frames: "frames = map (\<lambda>r. map (\<lambda>c. (fst c, [snd c r])) kfold_metric_columns) rs"
    using map_nth_all [of "\<lambda>r. map (\<lambda>c. (fst c, [snd c r])) kfold_metric_columns" rs] by simp
  from res have "frames \<noteq> []" by (auto simp: pd_concat_def)
  with frames have "rs \<noteq> []" by auto
  from pd_concat_rows [OF distinct_metric_columns(1) this] res frames
  have "all_results = table_of kfold_metric_columns rs" by simp
  then show ?thesis
    unfolding final by (simp add: file_after_to_csv os_path_join_inject)
qed

lemma holdout_save_variance_files:
  "holdout_save_variance lib self output_dir fs = (Inr (), self', fs') \<Longrightarrow>
   path \<noteq> os_path_join output_dir ''variance.tsv'' \<Longrightarrow>
   map_of (fs_files fs') path = map_of (fs_files fs) path"
  by (auto simp: holdout_save_variance_def Let_def file_after_to_csv
      split: sum.splits prod.splits)

lemma RepeatedHoldOut_save_results_tables:
  assumes "rh_split_results self = Some rs"
    and "RepeatedHoldOut_save_results lib self output_dir fs = (Inr (), self', fs')"
  shows "map_of (fs_files fs') (os_path_join output_dir ''results.tsv'')
           = Some (table_of holdout_metric_columns rs)
       \<and> map_of (fs_files fs') (os_path_join output_dir ''mean_results.tsv'')
           = Some (mean_of_columns (table_of holdout_metric_columns rs))"
proof -
  from assms obtain fs1 frames train test all_train all_test all_results where
    loop: "io_loop (holdout_save_iteration output_dir rs) (fs, [], [], []) [0..<length rs]
             = (Inr (), fs1, frames, train, test)"
    and res: "pd_concat frames = Inr all_results"
    and final: "holdout_save_variance lib self output_dir
                  (to_csv (to_csv (to_csv (to_csv fs1
                       (os_path_join output_dir ''train_subjects.tsv'') all_train)
                       (os_path_join output_dir ''test_subjects.tsv'') all_test)
                       (os_path_join output_dir ''results.tsv'') all_results)
                       (os_path_join output_dir ''mean_results.tsv'') (mean_of_columns all_results))
                = (Inr (), self', fs')"
    unfolding RepeatedHoldOut_save_results_def Let_def
    by (auto split: sum.splits prod.splits option.splits)
  from holdout_loop_frames [OF loop]
  have frames: "frames = map (\<lambda>r. map (\<lambda>c. (fst c, [snd c r])) holdout_metric_columns) rs"
    using map_nth_all [of "\<lambda>r. map (\<lambda>c. (fst c, [snd c r])) holdout_metric_columns" rs] by simp
  from res have "frames \<noteq> []" by (auto simp: pd_concat_def)
  with frames have "rs \<noteq> []" by auto
  from pd_concat_rows [OF distinct_metric_columns(2) this] res frames
  have all: "all_results = table_of holdout_metric_columns rs" by simp
  show ?thesis
    using holdout_save_variance_files [OF final, of "os_path_join output_dir ''results.tsv''"]
      holdout_save_variance_files [OF final, of "os_path_join output_dir ''mean_results.tsv''"]
    by (simp add: file_after_to_csv os_path_join_inject all)
qed

subsection \<open>Definitions unfolded when the example runs are saved\<close>

lemmas example_save_simps =
  KFoldCV_save_results_def RepeatedHoldOut_save_results_def kfold_save_fold_def
  holdout_save_iteration_def holdout_save_variance_def pd_DataFrame_def pd_concat_def
  n_rows_def np_nanmean_def mean_of_columns_def os_path_exists_def os_makedirs_def to_csv_def
  os_path_join_def str.simps label_cells_def index_cells_def example_filesystem_def
  compute_error_variance_def compute_accuracy_variance_def compute_variance_def
  compute_average_test_error_def compute_average_test_accuracy_def np_not_equal_def
  np_where_def py_truediv_def np_sub_def signed_inf_def

subsection \<open>The estimators on a stored list\<close>

lemma RepeatedHoldOut_validate_keeps_test_size:
  "rh_test_size (snd (RepeatedHoldOut_validate lib self y n_threads splits_indices inner_cv))
     = rh_test_size self"
  by (simp add: RepeatedHoldOut_validate_def Let_def
      split: sum.splits option.splits prod.splits)

lemma compute_error_variance_formula:
  assumes "rh_split_results self = Some rs"
    and "for_each (\<lambda>r. compute_average_test_error (res_y r) (res_y_hat r)) rs = Inr xs"
    and "2 \<le> length rs" and "rh_test_size self \<noteq> 1"
  shows "compute_error_variance self =
     (Inr (Fin (sample_variance xs / real (length rs)),
           Fin (sample_variance xs
                 * (1 / real (length rs) + rh_test_size self / (1 - rh_test_size self)))),
      self\<lparr>rh_error_resampled_t := Some (Fin (sample_variance xs / real (length rs))),
           rh_error_corrected_resampled_t :=
             Some (Fin (sample_variance xs
                 * (1 / real (length rs) + rh_test_size self / (1 - rh_test_size self))))\<rparr>)"
proof -
  have len: "length xs = length rs" using for_each_length [OF assms(2)] .
  with assms(3) have two: "2 \<le> length xs" by simp
  show ?thesis
    using compute_variance_formula [OF assms(1) len two assms(4)] assms(1,2) len
    by (simp add: compute_error_variance_def)
qed

lemma compute_accuracy_variance_formula:
  assumes "rh_split_results self = Some rs"
    and "for_each (\<lambda>r. compute_average_test_accuracy lib (res_y r) (res_y_hat r)) rs
           = Inr (map Fin xs)"
    and "2 \<le> length rs" and "rh_test_size self \<noteq> 1"
  shows "compute_accuracy_variance lib self =
     (Inr (Fin (sample_variance xs / real (length rs)),
           Fin (sample_variance xs
                 * (1 / real (length rs) + rh_test_size self / (1 - rh_test_size self)))),
      self\<lparr>rh_bal_accuracy_resampled_t := Some (Fin (sample_variance xs / real (length rs))),
           rh_bal_accuracy_corrected_resampled_t :=
             Some (Fin (sample_variance xs
                 * (1 / real (length rs) + rh_test_size self / (1 - rh_test_size self))))\<rparr>)"
proof -
  have len: "length xs = length rs" using for_each_length [OF assms(2)] by simp
  with assms(3) have two: "2 \<le> length xs" by simp
  show ?thesis
    using compute_variance_formula [OF assms(1) len two assms(4)] assms(1,2) len
    by (simp add: compute_accuracy_variance_def)
qed

subsection \<open>The example runs, saved and estimated\<close>

lemma kf_save_returns: "\<exists>fs'. KFoldCV_save_results
     (snd (example_kfold_run (snd (example_kfold_run (KFoldCV_init example_algorithm)))))
     ''out'' example_filesystem = (Inr (), fs')"
  by (simp add: example_run_simps example_save_simps upt_rec [of 0] upt_rec [of 1])

lemma rh_save_returns: "\<exists>rh' fs'. RepeatedHoldOut_save_results example_library
     (snd (example_holdout_run
            (snd (example_holdout_run (RepeatedHoldOut_init example_algorithm 1 (1/5))))))
     ''out'' example_filesystem = (Inr (), rh', fs')"
  by (simp add: example_run_simps example_save_simps upt_rec [of 0] upt_rec [of 1])

lemma rh_statistics: "\<exists>rs. rh_split_results
       (snd (example_holdout_run
              (snd (example_holdout_run (RepeatedHoldOut_init example_algorithm 1 (1/5))))))
       = Some rs
     \<and> length rs = 2
     \<and> for_each (\<lambda>r. compute_average_test_error (res_y r) (res_y_hat r)) rs = Inr [0, 0]
     \<and> for_each (\<lambda>r. compute_average_test_accuracy example_library (res_y r) (res_y_hat r)) rs
         = Inr (map Fin [1/2, 1/2])"
  by (simp add: example_run_simps example_save_simps upt_rec [of 0] upt_rec [of 1])

section \<open>The claims\<close>

text \<open>
  Claim C1. For a non-empty list of outer fold results whose selected values of C are
  finite and positive and whose best-parameter accuracies are finite,
  \<^verbatim>\<open>apply_best_parameters\<close> fits one classifier on the whole kernel (or feature matrix)
  and the whole label vector of the algorithm object, with C equal to 10 raised to the
  mean of the decimal logarithms of the folds' selected C, and returns it with the
  parameters whose \<open>c\<close> is that value and whose \<open>balanced_accuracy\<close> is the arithmetic
  mean of the folds' best-parameter accuracies.
\<close>

theorem apply_best_parameters_aggregates:
  assumes "results_list \<noteq> []"
    and "map (\<lambda>r. bp_c (res_best_parameter r)) results_list = map Fin cs"
    and "\<forall>c\<in>set cs. 0 < c"
    and "map (\<lambda>r. bp_balanced_accuracy (res_best_parameter r)) results_list = map Fin accs"
  shows "apply_best_parameters lib self results_list =
           (case SVC_fit lib (alg_kind self) (alg_balanced self) (Fin (log_space_mean cs))
                   (alg_data self) (alg_y self) of
              Inl e \<Rightarrow> Inl e
            | Inr svc \<Rightarrow>
                Inr (svc, \<lparr> bp_c = Fin (log_space_mean cs),
                            bp_balanced_accuracy = Fin (mean accs) \<rparr>))"
proof -
  have "length cs = length results_list" "length accs = length results_list"
    using assms(2,4) by (metis length_map)+
  then have ne: "cs \<noteq> []" "accs \<noteq> []" using assms(1) by auto
  show ?thesis
    unfolding apply_best_parameters_unfolded assms(2,4) log_space_mean_np [OF ne(1) assms(3)]
      np_mean_Fin [OF ne(2)] and_then_def ..
qed

theorem apply_best_parameters_aggregates_witness:
  "example_results \<noteq> []
   \<and> map (\<lambda>r. bp_c (res_best_parameter r)) example_results = map Fin [10, 100, 1000]
   \<and> log_space_mean [10, 100, 1000] = 100
   \<and> apply_best_parameters example_library example_algorithm example_results =
       Inr (Fitted Precomputed True (Fin 100) (alg_data example_algorithm) (alg_y example_algorithm),
            \<lparr> bp_c = Fin 100, bp_balanced_accuracy = Fin (7/10) \<rparr>)"
proof -
  have l: "log_space_mean [10, 100, 1000] = 100"
    by (simp add: log_space_mean_def mean_def log10_100 log10_1000 ten_powr_2)
  have m: "mean [6/10, 7/10, 8/10] = 7/10" by (simp add: mean_def)
  have cs: "map (\<lambda>r. bp_c (res_best_parameter r)) example_results = map Fin [10, 100, 1000]"
    and accs: "map (\<lambda>r. bp_balanced_accuracy (res_best_parameter r)) example_results
               = map Fin [6/10, 7/10, 8/10]"
    and ne: "example_results \<noteq> []"
    by (simp_all add: example_results_def example_result_def)
  have pos: "\<forall>c\<in>set [10, 100, 1000 :: real]. 0 < c" by simp
  from apply_best_parameters_aggregates [OF ne cs pos accs, of example_library example_algorithm]
  show ?thesis
    using ne cs l unfolding l m
    by (simp add: example_library_def example_algorithm_def)
qed

text \<open>
  Claim C2. With J at least 2 per-iteration statistics, one per stored split result, and
  a test fraction p strictly between 0 and 1, \<^verbatim>\<open>_compute_variance\<close> returns the pair
  \<open>(s\<^sup>2 / J, s\<^sup>2 \<sqdot> (1/J + p/(1 - p)))\<close>, where \<open>s\<^sup>2\<close> is the sample variance of the
  statistics; \<^verbatim>\<open>compute_error_variance\<close> returns and stores this pair for the mismatch
  fractions of the iterations, \<^verbatim>\<open>compute_accuracy_variance\<close> for their balanced
  accuracies.
\<close>

theorem compute_variance_resampled_t:
  assumes "rh_split_results self = Some split_results"
    and "length xs = length split_results"
    and "2 \<le> length xs"
    and "0 < rh_test_size self" and "rh_test_size self < 1"
  shows "compute_variance self (map Fin xs) =
           Inr (Fin (sample_variance xs / real (length xs)),
                Fin (sample_variance xs
                      * (1 / real (length xs) + rh_test_size self / (1 - rh_test_size self))))
       \<and> (for_each (\<lambda>r. compute_average_test_error (res_y r) (res_y_hat r)) split_results
            = Inr xs \<longrightarrow>
          compute_error_variance self =
            (compute_variance self (map Fin xs),
             self\<lparr>rh_error_resampled_t := Some (Fin (sample_variance xs / real (length xs))),
                  rh_error_corrected_resampled_t :=
                    Some (Fin (sample_variance xs
                      * (1 / real (length xs) + rh_test_size self / (1 - rh_test_size self))))\<rparr>))
       \<and> (for_each (\<lambda>r. compute_average_test_accuracy lib (res_y r) (res_y_hat r)) split_results
            = Inr (map Fin xs) \<longrightarrow>
          compute_accuracy_variance lib self =
            (compute_variance self (map Fin xs),
             self\<lparr>rh_bal_accuracy_resampled_t := Some (Fin (sample_variance xs / real (length xs))),
                  rh_bal_accuracy_corrected_resampled_t :=
                    Some (Fin (sample_variance xs
                      * (1 / real (length xs) + rh_test_size self / (1 - rh_test_size self))))\<rparr>))"
proof -
  have p: "rh_test_size self \<noteq> 1" using assms(5) by simp
  note v = compute_variance_formula [OF assms(1-3) p]
  show ?thesis
    unfolding v
    by (simp add: compute_error_variance_def compute_accuracy_variance_def assms(1) v)
qed

theorem compute_variance_resampled_t_witness:
  "compute_variance (example_holdout example_results) (map Fin [1/10, 2/10, 3/10]) =
     Inr (Fin ((1/100) / 3), Fin ((1/100) * (1/3 + 1/4)))
   \<and> fst (compute_error_variance (example_holdout example_results)) =
       Inr (Fin ((1/4) / 3), Fin ((1/4) * (1/3 + 1/4)))
   \<and> fst (compute_accuracy_variance example_library (example_holdout example_results)) =
       Inr (Fin 0, Fin 0)"
proof -
  have rs: "rh_split_results (example_holdout example_results) = Some example_results"
    and ts: "rh_test_size (example_holdout example_results) = 1/5"
    by (simp_all add: example_holdout_def RepeatedHoldOut_init_def)
  have len: "length example_results = 3" by (simp add: example_results_def)
  have errs: "for_each (\<lambda>r. compute_average_test_error (res_y r) (res_y_hat r)) example_results
                = Inr [0, 1/2, 1]"
    by (simp add: example_results_def example_result_def compute_average_test_error_def
        np_not_equal_def np_where_def py_truediv_def upt_rec [of 0] upt_rec [of 1])
  have accs: "for_each (\<lambda>r. compute_average_test_accuracy example_library (res_y r) (res_y_hat r))
                example_results = Inr (map Fin [1/2, 1/2, 1/2])"
    by (simp add: example_results_def compute_average_test_accuracy_def example_library_def
        example_metrics_def and_then_def)
  have sv1: "sample_variance [1/10, 1/5, 3/10] = 1/100"
    by (simp add: sample_variance_def mean_def power2_eq_square)
  have sv2: "sample_variance [0, 1/2, 1] = 1/4"
    by (simp add: sample_variance_def mean_def power2_eq_square)
  have sv3: "sample_variance [1/2, 1/2, 1/2] = 0"
    by (simp add: sample_variance_def mean_def)
  have a: "compute_variance (example_holdout example_results) (map Fin [1/10, 2/10, 3/10]) =
     Inr (Fin ((1/100) / 3), Fin ((1/100) * (1/3 + 1/4)))"
    using compute_variance_resampled_t [of "example_holdout example_results" example_results
        "[1/10, 2/10, 3/10]" example_library]
    by (simp add: rs ts len sv1)
  have b: "fst (compute_error_variance (example_holdout example_results)) =
       Inr (Fin ((1/4) / 3), Fin ((1/4) * (1/3 + 1/4)))"
    using compute_variance_resampled_t [of "example_holdout example_results" example_results
        "[0, 1/2, 1]" example_library]
    by (simp add: rs ts len sv2 errs)
  have c: "fst (compute_accuracy_variance example_library (example_holdout example_results)) =
       Inr (Fin 0, Fin 0)"
    using compute_variance_resampled_t [of "example_holdout example_results" example_results
        "[1/2, 1/2, 1/2]" example_library]
    by (simp add: rs ts len sv3 accs)
  from a b c show ?thesis by simp
qed

text \<open>
  Claim C3. The hyperparameter selection inside \<^verbatim>\<open>evaluate\<close> reads the data at the
  outer training indices only. For two algorithm objects that are configured alike,
  hold data of the same shape and agree on the labels and on the kernel entries (feature
  rows) at the training indices, and with the same collaborators and so the same inner
  fold assignment, the inner search has the same outcome (the same best parameter or
  the same error), whatever the values elsewhere and whatever the two test index sets;
  so two calls of \<^verbatim>\<open>evaluate\<close> that return carry the same \<open>best_parameter\<close>.
\<close>

theorem selection_ignores_outer_test_data:
  assumes "agree_on_train a b train_index"
  shows "evaluate_select lib a train_index = evaluate_select lib b train_index
       \<and> (\<forall>r1 r2. evaluate lib a train_index test_a = Inr r1
                 \<and> evaluate lib b train_index test_b = Inr r2
             \<longrightarrow> res_best_parameter r1 = res_best_parameter r2)"
  using evaluate_select_agree [OF assms, of lib]
  by (auto dest!: evaluate_best_parameter)

theorem selection_ignores_outer_test_data_witness:
  "agree_on_train example_algorithm_a example_algorithm_b [0, 1]
   \<and> alg_data example_algorithm_a ! 2 \<noteq> alg_data example_algorithm_b ! 2
   \<and> alg_y example_algorithm_a ! 2 \<noteq> alg_y example_algorithm_b ! 2
   \<and> evaluate_select example_library example_algorithm_a [0, 1]
       = evaluate_select example_library example_algorithm_b [0, 1]
   \<and> (\<exists>r1 r2. evaluate example_library example_algorithm_a [0, 1] [2] = Inr r1
         \<and> evaluate example_library example_algorithm_b [0, 1] [2] = Inr r2
         \<and> res_best_parameter r1 = res_best_parameter r2)"
proof -
  have agree: "agree_on_train example_algorithm_a example_algorithm_b [0, 1]"
    by (simp add: agree_on_train_def example_algorithm_a_def example_algorithm_b_def
        example_algorithm_def)
  have differ: "alg_data example_algorithm_a ! 2 \<noteq> alg_data example_algorithm_b ! 2"
    "alg_y example_algorithm_a ! 2 \<noteq> alg_y example_algorithm_b ! 2"
    by (simp_all add: example_algorithm_a_def example_algorithm_b_def example_algorithm_def)
  from example_evaluate_a obtain r1
    where r1: "evaluate example_library example_algorithm_a [0, 1] [2] = Inr r1" by blast
  from example_evaluate_b obtain r2
    where r2: "evaluate example_library example_algorithm_b [0, 1] [2] = Inr r2" by blast
  from selection_ignores_outer_test_data [OF agree, of example_library "[2]" "[2]"] r1 r2
  have "evaluate_select example_library example_algorithm_a [0, 1]
          = evaluate_select example_library example_algorithm_b [0, 1]"
    and "res_best_parameter r1 = res_best_parameter r2" by blast+
  with agree differ r1 r2 show ?thesis by blast
qed

text \<open>
  Claim C4. For a non-empty mapping of inner-fold results in which every fold has at
  least one candidate, the candidate values of C are positive and the accuracies are
  finite and above -1, \<^verbatim>\<open>_select_best_parameter\<close> returns the record whose \<open>c\<close> is 10
  raised to the mean of the decimal logarithms of the folds' winning C, and whose
  \<open>balanced_accuracy\<close> is the arithmetic mean of the folds' winning accuracies.
\<close>

theorem select_best_parameter_log_space_mean:
  assumes "folds \<noteq> []"
    and "\<forall>f\<in>set folds. snd f \<noteq> [] \<and> (\<forall>item\<in>set (snd f). 0 < fst item \<and> -1 < snd item)"
  shows "select_best_parameter (map (\<lambda>f. (fst f, finite_scores (snd f))) folds) =
           \<lparr> bp_c = Fin (log_space_mean (map (\<lambda>f. fst (fold_winner (snd f))) folds)),
             bp_balanced_accuracy = Fin (mean (map (\<lambda>f. snd (fold_winner (snd f))) folds)) \<rparr>"
proof -
  have win: "best_of_fold (-1, Fin (-1)) (finite_scores (snd f)) =
               (fst (fold_winner (snd f)), Fin (snd (fold_winner (snd f))))"
    if "f \<in> set folds" for f
  proof -
    from that assms(2) have ne: "snd f \<noteq> []" and gt: "\<forall>item\<in>set (snd f). -1 < snd item"
      by auto
    then obtain item where "item \<in> set (snd f)" by (cases "snd f") auto
    with gt have "\<exists>a\<in>set (map snd (snd f)). -1 < a"
      by (intro bexI [of _ "snd item"]) simp_all
    then show ?thesis using best_of_fold_winner [of "-1" "-1" "snd f"] by simp
  qed
  have cs: "map (\<lambda>f. fst (best_of_fold (-1, Fin (-1)) (snd f)))
              (map (\<lambda>f. (fst f, finite_scores (snd f))) folds)
            = map (\<lambda>f. fst (fold_winner (snd f))) folds"
    using win by (simp add: comp_def)
  have accs: "map (\<lambda>f. snd (best_of_fold (-1, Fin (-1)) (snd f)))
              (map (\<lambda>f. (fst f, finite_scores (snd f))) folds)
            = map Fin (map (\<lambda>f. snd (fold_winner (snd f))) folds)"
    using win by (simp add: comp_def)
  have pos: "\<forall>c\<in>set (map (\<lambda>f. fst (fold_winner (snd f))) folds). 0 < c"
  proof
    fix c assume "c \<in> set (map (\<lambda>f. fst (fold_winner (snd f))) folds)"
    then obtain f where f: "f \<in> set folds" "c = fst (fold_winner (snd f))" by auto
    with assms(2) have "fold_winner (snd f) \<in> set (snd f)"
      by (auto intro: fold_winner_in_set)
    with f assms(2) show "0 < c" by auto
  qed
  have ne: "map (\<lambda>f. fst (fold_winner (snd f))) folds \<noteq> []"
    "map (\<lambda>f. snd (fold_winner (snd f))) folds \<noteq> []" using assms(1) by auto
  have logs: "map (\<lambda>c. np_log10 (Fin c)) (map (\<lambda>f. fst (fold_winner (snd f))) folds)
            = map np_log10 (map Fin (map (\<lambda>f. fst (fold_winner (snd f))) folds))"
    by simp
  have "select_best_parameter (map (\<lambda>f. (fst f, finite_scores (snd f))) folds) =
       \<lparr> bp_c = np_power10 (np_mean (map (\<lambda>c. np_log10 (Fin c))
                   (map (\<lambda>f. fst (fold_winner (snd f))) folds))),
         bp_balanced_accuracy = np_mean (map Fin (map (\<lambda>f. snd (fold_winner (snd f))) folds)) \<rparr>"
    unfolding select_best_parameter_def collect_winners_eq append_Nil cs accs by simp
  then show ?thesis
    unfolding logs log_space_mean_np [OF ne(1) pos] np_mean_Fin [OF ne(2)] .
qed

theorem select_best_parameter_log_space_mean_witness:
  "select_best_parameter
     [(0, [(1, Fin (1/2)), (10, Fin (9/10)), (100, Fin (9/10))]),
      (1, [(1, Fin (1/5)), (10, Fin (3/5)), (1000, Fin (7/10))])]
   = \<lparr> bp_c = Fin 100, bp_balanced_accuracy = Fin (4/5) \<rparr>"
proof -
  have w0: "fold_winner [(1, 1/2), (10, 9/10), (100, 9/10 :: real)] = (10 :: real, 9/10)"
    by (simp add: fold_winner_def)
  have w1: "fold_winner [(1, 1/5), (10, 3/5), (1000, 7/10 :: real)] = (1000 :: real, 7/10)"
    by (simp add: fold_winner_def)
  have l: "log_space_mean [10, 1000] = 100"
    by (simp add: log_space_mean_def mean_def log10_1000 ten_powr_2)
  from select_best_parameter_log_space_mean
    [of "[(0, [(1, 1/2), (10, 9/10), (100, 9/10)]), (1, [(1, 1/5), (10, 3/5), (1000, 7/10)])]"]
  show ?thesis
    by (simp add: finite_scores_def w0 w1 l mean_def)
qed

text \<open>
  Claim C5. Within one inner fold, a later candidate replaces the current best only if
  its accuracy strictly exceeds it: the loop over the items extended by one candidate
  ends on that candidate if its accuracy is greater than that of the winner so far, and
  on the winner so far otherwise. Hence, for finite accuracies of which one is above the
  starting value -1, the winner is the first candidate in evaluation order that reaches
  the highest accuracy: no candidate has a higher one and every earlier candidate has a
  strictly lower one.
\<close>

theorem best_of_fold_first_strict_maximum:
  "best_of_fold s (items @ [(c, acc)]) =
     (if np_greater acc (snd (best_of_fold s items)) then (c, acc) else best_of_fold s items)
   \<and> ((\<exists>a\<in>set (map snd scores). -1 < a) \<longrightarrow>
        (\<exists>i<length scores.
           best_of_fold (-1, Fin (-1)) (finite_scores scores)
             = (fst (scores ! i), Fin (snd (scores ! i)))
           \<and> (\<forall>j<length scores. snd (scores ! j) \<le> snd (scores ! i))
           \<and> (\<forall>j<i. snd (scores ! j) < snd (scores ! i))))"
proof (intro conjI impI)
  show "best_of_fold s (items @ [(c, acc)]) =
     (if np_greater acc (snd (best_of_fold s items)) then (c, acc) else best_of_fold s items)"
    by (rule best_of_fold_snoc)
next
  assume gt: "\<exists>a\<in>set (map snd scores). -1 < a"
  then have ne: "scores \<noteq> []" by auto
  from fold_winner_first_max [OF ne] obtain i where i: "i < length scores"
    "scores ! i = fold_winner scores"
    "\<forall>j<length scores. snd (scores ! j) \<le> snd (fold_winner scores)"
    "\<forall>j<i. snd (scores ! j) < snd (fold_winner scores)" by blast
  have "best_of_fold (-1, Fin (-1)) (finite_scores scores)
          = (fst (fold_winner scores), Fin (snd (fold_winner scores)))"
    using best_of_fold_winner [of "-1" "-1" scores] gt by simp
  with i show "\<exists>i<length scores.
           best_of_fold (-1, Fin (-1)) (finite_scores scores)
             = (fst (scores ! i), Fin (snd (scores ! i)))
           \<and> (\<forall>j<length scores. snd (scores ! j) \<le> snd (scores ! i))
           \<and> (\<forall>j<i. snd (scores ! j) < snd (scores ! i))"
    by (intro exI [of _ i]) simp
qed

theorem best_of_fold_first_strict_maximum_witness:
  "(\<exists>a\<in>set (map snd [(1 :: real, 4/5 :: real), (10, 4/5), (100, 3/10)]). -1 < a)
   \<and> best_of_fold (-1, Fin (-1)) (finite_scores [(1, 4/5), (10, 4/5), (100, 3/10)])
       = (1, Fin (4/5))
   \<and> best_of_fold (1, Fin (4/5)) ([] @ [(10, Fin (4/5))]) = (1, Fin (4/5))
   \<and> (\<exists>i<length [(1 :: real, 4/5 :: real), (10, 4/5), (100, 3/10)].
           best_of_fold (-1, Fin (-1)) (finite_scores [(1, 4/5), (10, 4/5), (100, 3/10)])
             = (fst ([(1, 4/5), (10, 4/5), (100, 3/10)] ! i),
                Fin (snd ([(1 :: real, 4/5 :: real), (10, 4/5), (100, 3/10)] ! i))))"
  using best_of_fold_first_strict_maximum
    [of "(1, Fin (4/5))" "[]" 10 "Fin (4/5)" "[(1, 4/5), (10, 4/5), (100, 3/10)]"]
  by (auto simp: finite_scores_def)

text \<open>
  Claim C6 (as amended). With exactly one stored iteration and a test fraction other
  than 1, variance estimation raises nothing: the division of the sum of squares by
  \<open>J - 1 = 0\<close> is a NumPy division of \<open>0.0\<close> by \<open>0\<close> and yields \<open>nan\<close>, so
  \<^verbatim>\<open>_compute_variance\<close> returns \<open>(nan, nan)\<close>, and \<^verbatim>\<open>compute_error_variance\<close> and
  \<^verbatim>\<open>compute_accuracy_variance\<close> return \<open>(nan, nan)\<close> and store \<open>nan\<close> in their two
  attributes, nothing else of the object changing, whenever the statistic of the single
  iteration is computed.
\<close>

theorem compute_variance_one_iteration:
  assumes "rh_split_results self = Some [r]" and "rh_test_size self \<noteq> 1"
  shows "compute_variance self [x] = Inr (NaN, NaN)
       \<and> (compute_average_test_error (res_y r) (res_y_hat r) = Inr e \<longrightarrow>
            compute_error_variance self =
              (Inr (NaN, NaN),
               self\<lparr>rh_error_resampled_t := Some NaN,
                    rh_error_corrected_resampled_t := Some NaN\<rparr>))
       \<and> (compute_average_test_accuracy lib (res_y r) (res_y_hat r) = Inr a \<longrightarrow>
            compute_accuracy_variance lib self =
              (Inr (NaN, NaN),
               self\<lparr>rh_bal_accuracy_resampled_t := Some NaN,
                    rh_bal_accuracy_corrected_resampled_t := Some NaN\<rparr>))"
  using assms
  by (simp add: compute_error_variance_def compute_accuracy_variance_def
      compute_variance_single [OF assms])

theorem compute_variance_one_iteration_witness:
  "rh_split_results (example_holdout [example_result 10 (6/10) [0, 1] [1, 1]])
     = Some [example_result 10 (6/10) [0, 1] [1, 1]]
   \<and> compute_variance (example_holdout [example_result 10 (6/10) [0, 1] [1, 1]]) [Fin (1/2)]
       = Inr (NaN, NaN)
   \<and> compute_average_test_error [0, 1] [1, 1] = Inr (1/2)
   \<and> compute_error_variance (example_holdout [example_result 10 (6/10) [0, 1] [1, 1]])
       = (Inr (NaN, NaN),
          (example_holdout [example_result 10 (6/10) [0, 1] [1, 1]])
            \<lparr>rh_error_resampled_t := Some NaN, rh_error_corrected_resampled_t := Some NaN\<rparr>)
   \<and> compute_accuracy_variance example_library
         (example_holdout [example_result 10 (6/10) [0, 1] [1, 1]])
       = (Inr (NaN, NaN),
          (example_holdout [example_result 10 (6/10) [0, 1] [1, 1]])
            \<lparr>rh_bal_accuracy_resampled_t := Some NaN,
             rh_bal_accuracy_corrected_resampled_t := Some NaN\<rparr>)"
proof -
  have rs: "rh_split_results (example_holdout [example_result 10 (6/10) [0, 1] [1, 1]])
     = Some [example_result 10 (6/10) [0, 1] [1, 1]]"
    and ts: "rh_test_size (example_holdout [example_result 10 (6/10) [0, 1] [1, 1]]) \<noteq> 1"
    by (simp_all add: example_holdout_def RepeatedHoldOut_init_def)
  have e: "compute_average_test_error [0, 1] [1, 1] = Inr (1/2)"
    by (simp add: compute_average_test_error_def np_not_equal_def np_where_def py_truediv_def
        upt_rec [of 0] upt_rec [of 1])
  have a: "compute_average_test_accuracy example_library [0, 1] [1, 1] = Inr (Fin (1/2))"
    by (simp add: compute_average_test_accuracy_def example_library_def example_metrics_def
        and_then_def)
  from compute_variance_one_iteration [OF rs ts, of "Fin (1/2)" "1/2" example_library "Fin (1/2)"]
  show ?thesis using rs e a by (simp add: example_result_def)
qed

theorem one_iteration_variance_counterexample:
  "length (the (rh_split_results (example_holdout [example_result 10 (6/10) [0, 1] [1, 1]]))) = 1
   \<and> compute_error_variance (example_holdout [example_result 10 (6/10) [0, 1] [1, 1]])
       = (Inr (NaN, NaN),
          (example_holdout [example_result 10 (6/10) [0, 1] [1, 1]])
            \<lparr>rh_error_resampled_t := Some NaN, rh_error_corrected_resampled_t := Some NaN\<rparr>)
   \<and> compute_accuracy_variance example_library
         (example_holdout [example_result 10 (6/10) [0, 1] [1, 1]])
       = (Inr (NaN, NaN),
          (example_holdout [example_result 10 (6/10) [0, 1] [1, 1]])
            \<lparr>rh_bal_accuracy_resampled_t := Some NaN,
             rh_bal_accuracy_corrected_resampled_t := Some NaN\<rparr>)"
  by (simp add: example_holdout_def RepeatedHoldOut_init_def example_result_def
      compute_error_variance_def compute_accuracy_variance_def compute_variance_def
      compute_average_test_error_def compute_average_test_accuracy_def example_library_def
      example_metrics_def np_not_equal_def np_where_def py_truediv_def and_then_def
      np_mean_def np_sum_def np_sub_def signed_inf_def Let_def upt_rec [of 0] upt_rec [of 1])

text \<open>
  Claim C7. On a freshly constructed \<^verbatim>\<open>KFoldCV\<close> or \<^verbatim>\<open>RepeatedHoldOut\<close> object,
  \<^verbatim>\<open>save_results\<close> raises an error. The result list is \<open>[]\<close> and not \<^verbatim>\<open>None\<close>, so the
  error is the ValueError of \<^verbatim>\<open>pd.concat\<close> on an empty list of frames, for both
  classes.
\<close>

theorem save_results_before_validate_raises:
  "fst (KFoldCV_save_results (KFoldCV_init kf_algorithm) kf_output_dir kf_fs)
     = Inl (ValueError ''No objects to concatenate'')
   \<and> fst (RepeatedHoldOut_save_results lib
            (RepeatedHoldOut_init rh_algorithm n_iterations test_size) rh_output_dir rh_fs)
       = Inl (ValueError ''No objects to concatenate'')"
  by (simp add: KFoldCV_save_results_def KFoldCV_init_def RepeatedHoldOut_save_results_def
      RepeatedHoldOut_init_def pd_concat_def Let_def)

text \<open>
  Claim C8. \<^verbatim>\<open>RepeatedHoldOut.validate\<close> with \<open>inner_cv\<close> false raises an error and
  produces no results: the stored results, the classifier and the best parameters stay
  as they were. On an object with at least one iteration the error comes before any
  split is evaluated, and it is the exception \<open>We always do nested CV\<close> when the worker
  count is at least one and the list of splits is not empty. An object without
  iterations holds no results; there the loop body with the \<^verbatim>\<open>raise\<close> is not entered,
  and the error is that of fitting the final classifier with \<open>C = nan\<close>, the mean of no
  values, which the parameter validation of scikit-learn rejects.
\<close>

theorem validate_not_nested_raises:
  assumes "0 < rh_n_iterations self
           \<or> (rh_split_results self = Some []
               \<and> (\<forall>k balanced X labels. isl (SVC_fit lib k balanced NaN X labels)))"
  shows "isl (fst (RepeatedHoldOut_validate lib self y n_threads splits_indices False))
   \<and> rh_split_results (snd (RepeatedHoldOut_validate lib self y n_threads splits_indices False))
       = rh_split_results self
   \<and> rh_classifier (snd (RepeatedHoldOut_validate lib self y n_threads splits_indices False))
       = rh_classifier self
   \<and> rh_best_params (snd (RepeatedHoldOut_validate lib self y n_threads splits_indices False))
       = rh_best_params self
   \<and> (0 < rh_n_iterations self \<longrightarrow>
        RepeatedHoldOut_validate lib self y n_threads splits_indices False =
          (case (case splits_indices of
                   None \<Rightarrow> StratifiedShuffleSplit_split lib (rh_n_iterations self)
                             (rh_test_size self) y
                 | Some given \<Rightarrow> Inr given) of
             Inl e \<Rightarrow> (Inl e, self)
           | Inr cv \<Rightarrow>
               (Inl (if n_threads < 1 then ValueError ''Number of processes must be at least 1''
                     else if cv = [] then IndexError
                     else Exception ''We always do nested CV''),
                self\<lparr>rh_cv := Some cv\<rparr>)))"
proof (cases "0 < rh_n_iterations self")
  case True
  then show ?thesis
    by (simp add: RepeatedHoldOut_validate_def Let_def holdout_dispatch_not_nested and_then_def
        ThreadPool_def split: sum.splits option.splits)
next
  case False
  with assms have fresh: "rh_split_results self = Some []"
    and rejects: "\<And>k balanced X labels. isl (SVC_fit lib k balanced NaN X labels)"
    and n: "rh_n_iterations self \<le> 0"
    by auto
  have fit: "\<exists>e. apply_best_parameters lib alg [] = Inl e" for alg
    using rejects [of "alg_kind alg" "alg_balanced alg" "alg_data alg" "alg_y alg"]
    by (auto simp: apply_best_parameters_Nil and_then_def isl_def)
  show ?thesis
    using False fresh n fit [of "rh_ml_algorithm self"]
    by (auto simp: RepeatedHoldOut_validate_def Let_def holdout_dispatch_no_iterations
        and_then_def ThreadPool_def split: sum.splits option.splits)
qed

theorem validate_not_nested_raises_witness:
  "0 < rh_n_iterations (RepeatedHoldOut_init example_algorithm 2 (1/5) :: example_svc RepeatedHoldOut)
   \<and> RepeatedHoldOut_validate example_library (RepeatedHoldOut_init example_algorithm 2 (1/5))
        [0, 1] 15 (Some [([0], [1]), ([1], [0])]) False
      = (Inl (Exception ''We always do nested CV''),
         (RepeatedHoldOut_init example_algorithm 2 (1/5))\<lparr>rh_cv := Some [([0], [1]), ([1], [0])]\<rparr>)
   \<and> fst (RepeatedHoldOut_validate example_library (RepeatedHoldOut_init example_algorithm 2 (1/5))
        [0, 1] 15 None False)
      = Inl (Exception ''We always do nested CV'')
   \<and> rh_split_results (RepeatedHoldOut_init example_algorithm 0 (1/5) :: example_svc RepeatedHoldOut)
       = Some []
   \<and> (\<forall>k balanced X labels. isl (SVC_fit strict_library k balanced NaN X labels))
   \<and> isl (fst (RepeatedHoldOut_validate strict_library
                  (RepeatedHoldOut_init example_algorithm 0 (1/5)) [0, 1] 15
                  (Some [([0], [1])]) False))
   \<and> rh_split_results (snd (RepeatedHoldOut_validate strict_library
                  (RepeatedHoldOut_init example_algorithm 0 (1/5)) [0, 1] 15
                  (Some [([0], [1])]) False)) = Some []"
proof -
  have rejects: "\<forall>k balanced X labels. isl (SVC_fit strict_library k balanced NaN X labels)"
    by (simp add: strict_library_def)
  have fresh: "rh_split_results (RepeatedHoldOut_init example_algorithm 0 (1/5)
                 :: example_svc RepeatedHoldOut) = Some []"
    by (simp add: RepeatedHoldOut_init_def)
  from validate_not_nested_raises
    [of "RepeatedHoldOut_init example_algorithm 2 (1/5)" example_library "[0, 1]" 15
        "Some [([0], [1]), ([1], [0])]"]
    validate_not_nested_raises
    [of "RepeatedHoldOut_init example_algorithm 2 (1/5)" example_library "[0, 1]" 15 None]
    validate_not_nested_raises
    [of "RepeatedHoldOut_init example_algorithm 0 (1/5)" strict_library "[0, 1]" 15
        "Some [([0], [1])]"]
    rejects fresh
  show ?thesis
    by (simp add: RepeatedHoldOut_init_def example_library_def)
qed

text \<open>
  Claim C9. With a prediction for every label of a non-empty test set,
  \<^verbatim>\<open>_compute_average_test_error\<close> returns the number of positions at which the true
  label and the predicted label differ, divided by the length of the label vector.
\<close>

theorem compute_average_test_error_is_mismatch_fraction:
  assumes "length yhat_list = length y_list" and "y_list \<noteq> []"
  shows "compute_average_test_error y_list yhat_list =
           Inr (real (card {i. i < length y_list \<and> y_list ! i \<noteq> yhat_list ! i})
                 / real (length y_list))"
  using assms
  by (simp add: compute_average_test_error_def np_not_equal_def np_where_zip
      length_filter_upt py_truediv_def)

theorem compute_average_test_error_is_mismatch_fraction_witness:
  "length [0, 0, 1, 1 :: label] = length [0, 1, 1, 0 :: label]
   \<and> compute_average_test_error [0, 1, 1, 0] [0, 0, 1, 1] = Inr (1/2)
   \<and> real (card {i. i < length [0, 1, 1, 0 :: label]
                    \<and> [0, 1, 1, 0 :: label] ! i \<noteq> [0, 0, 1, 1] ! i})
       / real (length [0, 1, 1, 0 :: label]) = 1/2"
proof -
  have run: "compute_average_test_error [0, 1, 1, 0] [0, 0, 1, 1] = Inr (1/2)"
    by (simp add: compute_average_test_error_def np_not_equal_def np_where_def py_truediv_def
        upt_rec [of 0] upt_rec [of 1] upt_rec [of 2] upt_rec [of 3])
  have "compute_average_test_error [0, 1, 1, 0] [0, 0, 1, 1] =
          Inr (real (card {i. i < length [0, 1, 1, 0 :: label]
                              \<and> [0, 1, 1, 0 :: label] ! i \<noteq> [0, 0, 1, 1] ! i})
                / real (length [0, 1, 1, 0 :: label]))"
    by (rule compute_average_test_error_is_mismatch_fraction) simp_all
  with run show ?thesis by simp
qed

text \<open>
  Claim C10. \<^verbatim>\<open>validate\<close> appends to the stored result list and never resets it: after
  two successful calls on the same \<^verbatim>\<open>KFoldCV\<close> or \<^verbatim>\<open>RepeatedHoldOut\<close> object, the stored
  list (which is also the list returned) is the list held before, followed by the
  results of the first run, followed by those of the second, each run contributing one
  result per fold or iteration. What runs afterwards aggregates over this combined
  list: the classifier and parameters of the second call are those
  \<^verbatim>\<open>apply_best_parameters\<close> computes from it; a \<^verbatim>\<open>save_results\<close> that returns has written,
  as \<open>results.tsv\<close>, the metrics table with one row per result of the combined list and,
  as \<open>mean_results.tsv\<close>, its column means; and the two variance estimators reduce the
  statistics of the combined list, with J its length.
\<close>

theorem validate_appends_to_stored_results:
  "(KFoldCV_validate lib1 kf0 y1 n_folds1 n_threads1 splits1 = (Inr out1, kf1)
    \<and> KFoldCV_validate lib2 kf1 y2 n_folds2 n_threads2 splits2 = (Inr out2, kf2)
    \<and> kf_fold_results kf0 = Some old
    \<longrightarrow> (\<exists>new1 new2.
           length new1 = nat n_folds1 \<and> length new2 = nat n_folds2
         \<and> kf_fold_results kf1 = Some (old @ new1) \<and> snd (snd out1) = old @ new1
         \<and> kf_fold_results kf2 = Some (old @ new1 @ new2) \<and> snd (snd out2) = old @ new1 @ new2
         \<and> apply_best_parameters lib2 (kf_ml_algorithm kf0) (old @ new1 @ new2)
             = Inr (fst out2, fst (snd out2))
         \<and> (\<forall>output_dir fs fs'.
               KFoldCV_save_results kf2 output_dir fs = (Inr (), fs') \<longrightarrow>
                 map_of (fs_files fs') (os_path_join output_dir ''results.tsv'')
                   = Some (table_of kfold_metric_columns (old @ new1 @ new2))
               \<and> map_of (fs_files fs') (os_path_join output_dir ''mean_results.tsv'')
                   = Some (mean_of_columns (table_of kfold_metric_columns (old @ new1 @ new2))))))
   \<and> (RepeatedHoldOut_validate lib3 rh0 y3 n_threads3 splits3 inner_cv3 = (Inr out3, rh1)
      \<and> RepeatedHoldOut_validate lib4 rh1 y4 n_threads4 splits4 inner_cv4 = (Inr out4, rh2)
      \<and> rh_split_results rh0 = Some held
      \<longrightarrow> (\<exists>new3 new4.
           length new3 = nat (rh_n_iterations rh0) \<and> length new4 = nat (rh_n_iterations rh0)
         \<and> rh_split_results rh1 = Some (held @ new3) \<and> snd (snd out3) = held @ new3
         \<and> rh_split_results rh2 = Some (held @ new3 @ new4) \<and> snd (snd out4) = held @ new3 @ new4
         \<and> apply_best_parameters lib4 (rh_ml_algorithm rh0) (held @ new3 @ new4)
             = Inr (fst out4, fst (snd out4))
         \<and> (\<forall>lib output_dir fs rh' fs'.
               RepeatedHoldOut_save_results lib rh2 output_dir fs = (Inr (), rh', fs') \<longrightarrow>
                 map_of (fs_files fs') (os_path_join output_dir ''results.tsv'')
                   = Some (table_of holdout_metric_columns (held @ new3 @ new4))
               \<and> map_of (fs_files fs') (os_path_join output_dir ''mean_results.tsv'')
                   = Some (mean_of_columns
                             (table_of holdout_metric_columns (held @ new3 @ new4))))
         \<and> (\<forall>xs. for_each (\<lambda>r. compute_average_test_error (res_y r) (res_y_hat r))
                     (held @ new3 @ new4) = Inr xs
                 \<and> 2 \<le> length (held @ new3 @ new4) \<and> rh_test_size rh0 \<noteq> 1 \<longrightarrow>
               fst (compute_error_variance rh2) =
                 Inr (Fin (sample_variance xs / real (length (held @ new3 @ new4))),
                      Fin (sample_variance xs
                            * (1 / real (length (held @ new3 @ new4))
                               + rh_test_size rh0 / (1 - rh_test_size rh0)))))
         \<and> (\<forall>lib xs. for_each (\<lambda>r. compute_average_test_accuracy lib (res_y r) (res_y_hat r))
                     (held @ new3 @ new4) = Inr (map Fin xs)
                 \<and> 2 \<le> length (held @ new3 @ new4) \<and> rh_test_size rh0 \<noteq> 1 \<longrightarrow>
               fst (compute_accuracy_variance lib rh2) =
                 Inr (Fin (sample_variance xs / real (length (held @ new3 @ new4))),
                      Fin (sample_variance xs
                            * (1 / real (length (held @ new3 @ new4))
                               + rh_test_size rh0 / (1 - rh_test_size rh0)))))))"
proof (intro conjI impI)
  assume a: "KFoldCV_validate lib1 kf0 y1 n_folds1 n_threads1 splits1 = (Inr out1, kf1)
    \<and> KFoldCV_validate lib2 kf1 y2 n_folds2 n_threads2 splits2 = (Inr out2, kf2)
    \<and> kf_fold_results kf0 = Some old"
  from KFoldCV_validate_Inr [of lib1 kf0 y1 n_folds1 n_threads1 splits1 out1 kf1 old] a
  obtain new1 where n1: "length new1 = nat n_folds1" "snd (snd out1) = old @ new1"
    "kf_fold_results kf1 = Some (old @ new1)" "kf_ml_algorithm kf1 = kf_ml_algorithm kf0"
    by blast
  from KFoldCV_validate_Inr [of lib2 kf1 y2 n_folds2 n_threads2 splits2 out2 kf2 "old @ new1"]
    a n1(3)
  obtain new2 where n2: "length new2 = nat n_folds2" "snd (snd out2) = (old @ new1) @ new2"
    "kf_fold_results kf2 = Some ((old @ new1) @ new2)"
    "apply_best_parameters lib2 (kf_ml_algorithm kf1) ((old @ new1) @ new2)
       = Inr (fst out2, fst (snd out2))"
    by blast
  have stored: "kf_fold_results kf2 = Some (old @ new1 @ new2)" using n2(3) by simp
  have saved: "\<forall>output_dir fs fs'.
               KFoldCV_save_results kf2 output_dir fs = (Inr (), fs') \<longrightarrow>
                 map_of (fs_files fs') (os_path_join output_dir ''results.tsv'')
                   = Some (table_of kfold_metric_columns (old @ new1 @ new2))
               \<and> map_of (fs_files fs') (os_path_join output_dir ''mean_results.tsv'')
                   = Some (mean_of_columns (table_of kfold_metric_columns (old @ new1 @ new2)))"
    using KFoldCV_save_results_tables [OF stored] by blast
  show "\<exists>new1 new2.
           length new1 = nat n_folds1 \<and> length new2 = nat n_folds2
         \<and> kf_fold_results kf1 = Some (old @ new1) \<and> snd (snd out1) = old @ new1
         \<and> kf_fold_results kf2 = Some (old @ new1 @ new2) \<and> snd (snd out2) = old @ new1 @ new2
         \<and> apply_best_parameters lib2 (kf_ml_algorithm kf0) (old @ new1 @ new2)
             = Inr (fst out2, fst (snd out2))
         \<and> (\<forall>output_dir fs fs'.
               KFoldCV_save_results kf2 output_dir fs = (Inr (), fs') \<longrightarrow>
                 map_of (fs_files fs') (os_path_join output_dir ''results.tsv'')
                   = Some (table_of kfold_metric_columns (old @ new1 @ new2))
               \<and> map_of (fs_files fs') (os_path_join output_dir ''mean_results.tsv'')
                   = Some (mean_of_columns (table_of kfold_metric_columns (old @ new1 @ new2))))"
    apply (rule exI [of _ new1], rule exI [of _ new2])
    using n1 n2 saved by simp
next
  assume a: "RepeatedHoldOut_validate lib3 rh0 y3 n_threads3 splits3 inner_cv3 = (Inr out3, rh1)
      \<and> RepeatedHoldOut_validate lib4 rh1 y4 n_threads4 splits4 inner_cv4 = (Inr out4, rh2)
      \<and> rh_split_results rh0 = Some held"
  from RepeatedHoldOut_validate_Inr [of lib3 rh0 y3 n_threads3 splits3 inner_cv3 out3 rh1 held] a
  obtain new3 where n3: "length new3 = nat (rh_n_iterations rh0)" "snd (snd out3) = held @ new3"
    "rh_split_results rh1 = Some (held @ new3)" "rh_ml_algorithm rh1 = rh_ml_algorithm rh0"
    "rh_n_iterations rh1 = rh_n_iterations rh0"
    by blast
  from RepeatedHoldOut_validate_Inr
    [of lib4 rh1 y4 n_threads4 splits4 inner_cv4 out4 rh2 "held @ new3"] a n3(3)
  obtain new4 where n4: "length new4 = nat (rh_n_iterations rh1)"
    "snd (snd out4) = (held @ new3) @ new4"
    "rh_split_results rh2 = Some ((held @ new3) @ new4)"
    "apply_best_parameters lib4 (rh_ml_algorithm rh1) ((held @ new3) @ new4)
       = Inr (fst out4, fst (snd out4))"
    by blast
  have stored: "rh_split_results rh2 = Some (held @ new3 @ new4)" using n4(3) by simp
  have "rh_test_size rh1 = rh_test_size rh0" "rh_test_size rh2 = rh_test_size rh1"
    using a RepeatedHoldOut_validate_keeps_test_size
      [of lib3 rh0 y3 n_threads3 splits3 inner_cv3]
      RepeatedHoldOut_validate_keeps_test_size
      [of lib4 rh1 y4 n_threads4 splits4 inner_cv4]
    by simp_all
  then have size: "rh_test_size rh2 = rh_test_size rh0" by simp
  have saved: "\<forall>lib output_dir fs rh' fs'.
               RepeatedHoldOut_save_results lib rh2 output_dir fs = (Inr (), rh', fs') \<longrightarrow>
                 map_of (fs_files fs') (os_path_join output_dir ''results.tsv'')
                   = Some (table_of holdout_metric_columns (held @ new3 @ new4))
               \<and> map_of (fs_files fs') (os_path_join output_dir ''mean_results.tsv'')
                   = Some (mean_of_columns
                             (table_of holdout_metric_columns (held @ new3 @ new4)))"
    using RepeatedHoldOut_save_results_tables [OF stored] by blast
  have errs: "\<forall>xs. for_each (\<lambda>r. compute_average_test_error (res_y r) (res_y_hat r))
                     (held @ new3 @ new4) = Inr xs
                 \<and> 2 \<le> length (held @ new3 @ new4) \<and> rh_test_size rh0 \<noteq> 1 \<longrightarrow>
               fst (compute_error_variance rh2) =
                 Inr (Fin (sample_variance xs / real (length (held @ new3 @ new4))),
                      Fin (sample_variance xs
                            * (1 / real (length (held @ new3 @ new4))
                               + rh_test_size rh0 / (1 - rh_test_size rh0))))"
    using compute_error_variance_formula [OF stored] unfolding size by simp
  have accs: "\<forall>lib xs. for_each (\<lambda>r. compute_average_test_accuracy lib (res_y r) (res_y_hat r))
                     (held @ new3 @ new4) = Inr (map Fin xs)
                 \<and> 2 \<le> length (held @ new3 @ new4) \<and> rh_test_size rh0 \<noteq> 1 \<longrightarrow>
               fst (compute_accuracy_variance lib rh2) =
                 Inr (Fin (sample_variance xs / real (length (held @ new3 @ new4))),
                      Fin (sample_variance xs
                            * (1 / real (length (held @ new3 @ new4))
                               + rh_test_size rh0 / (1 - rh_test_size rh0))))"
    using compute_accuracy_variance_formula [OF stored] unfolding size by simp
  show "\<exists>new3 new4.
           length new3 = nat (rh_n_iterations rh0) \<and> length new4 = nat (rh_n_iterations rh0)
         \<and> rh_split_results rh1 = Some (held @ new3) \<and> snd (snd out3) = held @ new3
         \<and> rh_split_results rh2 = Some (held @ new3 @ new4) \<and> snd (snd out4) = held @ new3 @ new4
         \<and> apply_best_parameters lib4 (rh_ml_algorithm rh0) (held @ new3 @ new4)
             = Inr (fst out4, fst (snd out4))
         \<and> (\<forall>lib output_dir fs rh' fs'.
               RepeatedHoldOut_save_results lib rh2 output_dir fs = (Inr (), rh', fs') \<longrightarrow>
                 map_of (fs_files fs') (os_path_join output_dir ''results.tsv'')
                   = Some (table_of holdout_metric_columns (held @ new3 @ new4))
               \<and> map_of (fs_files fs') (os_path_join output_dir ''mean_results.tsv'')
                   = Some (mean_of_columns
                             (table_of holdout_metric_columns (held @ new3 @ new4))))
         \<and> (\<forall>xs. for_each (\<lambda>r. compute_average_test_error (res_y r) (res_y_hat r))
                     (held @ new3 @ new4) = Inr xs
                 \<and> 2 \<le> length (held @ new3 @ new4) \<and> rh_test_size rh0 \<noteq> 1 \<longrightarrow>
               fst (compute_error_variance rh2) =
                 Inr (Fin (sample_variance xs / real (length (held @ new3 @ new4))),
                      Fin (sample_variance xs
                            * (1 / real (length (held @ new3 @ new4))
                               + rh_test_size rh0 / (1 - rh_test_size rh0)))))
         \<and> (\<forall>lib xs. for_each (\<lambda>r. compute_average_test_accuracy lib (res_y r) (res_y_hat r))
                     (held @ new3 @ new4) = Inr (map Fin xs)
                 \<and> 2 \<le> length (held @ new3 @ new4) \<and> rh_test_size rh0 \<noteq> 1 \<longrightarrow>
               fst (compute_accuracy_variance lib rh2) =
                 Inr (Fin (sample_variance xs / real (length (held @ new3 @ new4))),
                      Fin (sample_variance xs
                            * (1 / real (length (held @ new3 @ new4))
                               + rh_test_size rh0 / (1 - rh_test_size rh0)))))"
    apply (rule exI [of _ new3], rule exI [of _ new4])
    using n3 n4 saved errs accs by simp
qed

theorem validate_appends_to_stored_results_witness:
  "(\<exists>new1 new2 fs'. length new1 = 1 \<and> length new2 = 1
      \<and> kf_fold_results (snd (example_kfold_run (KFoldCV_init example_algorithm))) = Some new1
      \<and> kf_fold_results
           (snd (example_kfold_run (snd (example_kfold_run (KFoldCV_init example_algorithm)))))
         = Some (new1 @ new2)
      \<and> KFoldCV_save_results
           (snd (example_kfold_run (snd (example_kfold_run (KFoldCV_init example_algorithm)))))
           ''out'' example_filesystem = (Inr (), fs')
      \<and> map_of (fs_files fs') (os_path_join ''out'' ''results.tsv'')
           = Some (table_of kfold_metric_columns (new1 @ new2)))
   \<and> (\<exists>new3 new4 rh' fs'. length new3 = 1 \<and> length new4 = 1
      \<and> rh_split_results
           (snd (example_holdout_run (RepeatedHoldOut_init example_algorithm 1 (1/5)))) = Some new3
      \<and> rh_split_results
           (snd (example_holdout_run
                  (snd (example_holdout_run (RepeatedHoldOut_init example_algorithm 1 (1/5))))))
         = Some (new3 @ new4)
      \<and> RepeatedHoldOut_save_results example_library
           (snd (example_holdout_run
                  (snd (example_holdout_run (RepeatedHoldOut_init example_algorithm 1 (1/5))))))
           ''out'' example_filesystem = (Inr (), rh', fs')
      \<and> map_of (fs_files fs') (os_path_join ''out'' ''results.tsv'')
           = Some (table_of holdout_metric_columns (new3 @ new4))
      \<and> fst (compute_error_variance
           (snd (example_holdout_run
                  (snd (example_holdout_run (RepeatedHoldOut_init example_algorithm 1 (1/5)))))))
         = Inr (Fin 0, Fin 0)
      \<and> fst (compute_accuracy_variance example_library
           (snd (example_holdout_run
                  (snd (example_holdout_run (RepeatedHoldOut_init example_algorithm 1 (1/5)))))))
         = Inr (Fin 0, Fin 0))"
proof -
  define kf0 :: "example_svc KFoldCV" where "kf0 = KFoldCV_init example_algorithm"
  define kf1 where "kf1 = snd (example_kfold_run kf0)"
  define kf2 where "kf2 = snd (example_kfold_run kf1)"
  define rh0 :: "example_svc RepeatedHoldOut"
    where "rh0 = RepeatedHoldOut_init example_algorithm 1 (1/5)"
  define rh1 where "rh1 = snd (example_holdout_run rh0)"
  define rh2 where "rh2 = snd (example_holdout_run rh1)"
  from kf_run1 obtain out1 where r1: "KFoldCV_validate example_library kf0 [0, 1] 1 1
      (Some [([0], [1])]) = (Inr out1, kf1)"
    unfolding example_kfold_run_def kf0_def kf1_def by blast
  from kf_run2 obtain out2 where r2: "KFoldCV_validate example_library kf1 [0, 1] 1 1
      (Some [([0], [1])]) = (Inr out2, kf2)"
    unfolding example_kfold_run_def kf0_def kf1_def kf2_def by blast
  from rh_run1 obtain out3 where r3: "RepeatedHoldOut_validate example_library rh0 [0, 1] 1
      None True = (Inr out3, rh1)"
    unfolding example_holdout_run_def rh0_def rh1_def by blast
  from rh_run2 obtain out4 where r4: "RepeatedHoldOut_validate example_library rh1 [0, 1] 1
      None True = (Inr out4, rh2)"
    unfolding example_holdout_run_def rh0_def rh1_def rh2_def by blast
  have k0: "kf_fold_results kf0 = Some []" by (simp add: kf0_def KFoldCV_init_def)
  have h0: "rh_split_results rh0 = Some []" "rh_n_iterations rh0 = 1" "rh_test_size rh0 = 1/5"
    by (simp_all add: rh0_def RepeatedHoldOut_init_def)
  from kf_save_returns obtain fsk where sk: "KFoldCV_save_results kf2 ''out'' example_filesystem
      = (Inr (), fsk)"
    unfolding kf0_def kf1_def kf2_def by blast
  from rh_save_returns obtain rhs fsh where sh: "RepeatedHoldOut_save_results example_library rh2
      ''out'' example_filesystem = (Inr (), rhs, fsh)"
    unfolding rh0_def rh1_def rh2_def by blast
  from rh_statistics obtain rs where rs: "rh_split_results rh2 = Some rs" "length rs = 2"
    "for_each (\<lambda>r. compute_average_test_error (res_y r) (res_y_hat r)) rs = Inr [0, 0]"
    "for_each (\<lambda>r. compute_average_test_accuracy example_library (res_y r) (res_y_hat r)) rs
         = Inr (map Fin [1/2, 1/2])"
    unfolding rh0_def rh1_def rh2_def by blast
  note inst = validate_appends_to_stored_results
    [of example_library kf0 "[0, 1]" 1 1 "Some [([0], [1])]" out1 kf1
        example_library "[0, 1]" 1 1 "Some [([0], [1])]" out2 kf2 "[]"
        example_library rh0 "[0, 1]" 1 None True out3 rh1
        example_library "[0, 1]" 1 None True out4 rh2 "[]"]
  from inst [THEN conjunct1, THEN mp, OF conjI [OF r1 conjI [OF r2 k0]]]
  obtain new1 new2 where kf:
    "length new1 = 1" "length new2 = 1" "kf_fold_results kf1 = Some new1"
    "kf_fold_results kf2 = Some (new1 @ new2)"
    "\<forall>output_dir fs fs'.
        KFoldCV_save_results kf2 output_dir fs = (Inr (), fs') \<longrightarrow>
          map_of (fs_files fs') (os_path_join output_dir ''results.tsv'')
            = Some (table_of kfold_metric_columns (new1 @ new2))
        \<and> map_of (fs_files fs') (os_path_join output_dir ''mean_results.tsv'')
            = Some (mean_of_columns (table_of kfold_metric_columns (new1 @ new2)))"
    by auto
  from inst [THEN conjunct2, THEN mp, OF conjI [OF r3 conjI [OF r4 h0(1)]]]
  obtain new3 new4 where rh:
    "length new3 = nat (rh_n_iterations rh0)" "length new4 = nat (rh_n_iterations rh0)"
    "rh_split_results rh1 = Some new3"
    "rh_split_results rh2 = Some (new3 @ new4)"
    "\<forall>lib output_dir fs rh' fs'.
        RepeatedHoldOut_save_results lib rh2 output_dir fs = (Inr (), rh', fs') \<longrightarrow>
          map_of (fs_files fs') (os_path_join output_dir ''results.tsv'')
            = Some (table_of holdout_metric_columns (new3 @ new4))
        \<and> map_of (fs_files fs') (os_path_join output_dir ''mean_results.tsv'')
            = Some (mean_of_columns (table_of holdout_metric_columns (new3 @ new4)))"
    "\<forall>xs. for_each (\<lambda>r. compute_average_test_error (res_y r) (res_y_hat r)) (new3 @ new4)
             = Inr xs
          \<and> 2 \<le> length (new3 @ new4) \<and> rh_test_size rh0 \<noteq> 1 \<longrightarrow>
        fst (compute_error_variance rh2) =
          Inr (Fin (sample_variance xs / real (length (new3 @ new4))),
               Fin (sample_variance xs * (1 / real (length (new3 @ new4))
                                         + rh_test_size rh0 / (1 - rh_test_size rh0))))"
    "\<forall>lib xs. for_each (\<lambda>r. compute_average_test_accuracy lib (res_y r) (res_y_hat r))
               (new3 @ new4) = Inr (map Fin xs)
          \<and> 2 \<le> length (new3 @ new4) \<and> rh_test_size rh0 \<noteq> 1 \<longrightarrow>
        fst (compute_accuracy_variance lib rh2) =
          Inr (Fin (sample_variance xs / real (length (new3 @ new4))),
               Fin (sample_variance xs * (1 / real (length (new3 @ new4))
                                         + rh_test_size rh0 / (1 - rh_test_size rh0))))"
    by auto
  have comb: "new3 @ new4 = rs" using rh(4) rs(1) by simp
  have sv0: "sample_variance [0, 0] = 0" "sample_variance [1/2, 1/2] = 0"
    by (simp_all add: sample_variance_def mean_def)
  have ev: "fst (compute_error_variance rh2) = Inr (Fin 0, Fin 0)"
    using rh(6) [rule_format, of "[0, 0]"] rs(2,3) comb h0(3) by (simp add: sv0)
  have av: "fst (compute_accuracy_variance example_library rh2) = Inr (Fin 0, Fin 0)"
    using rh(7) [rule_format, of example_library "[1/2, 1/2]"] rs(2,4) comb h0(3)
    by (simp add: sv0)
  have A: "\<exists>new1 new2 fs'. length new1 = 1 \<and> length new2 = 1
      \<and> kf_fold_results kf1 = Some new1 \<and> kf_fold_results kf2 = Some (new1 @ new2)
      \<and> KFoldCV_save_results kf2 ''out'' example_filesystem = (Inr (), fs')
      \<and> map_of (fs_files fs') (os_path_join ''out'' ''results.tsv'')
           = Some (table_of kfold_metric_columns (new1 @ new2))"
    using kf sk by blast
  have B: "\<exists>new3 new4 rh' fs'. length new3 = 1 \<and> length new4 = 1
      \<and> rh_split_results rh1 = Some new3 \<and> rh_split_results rh2 = Some (new3 @ new4)
      \<and> RepeatedHoldOut_save_results example_library rh2 ''out'' example_filesystem
           = (Inr (), rh', fs')
      \<and> map_of (fs_files fs') (os_path_join ''out'' ''results.tsv'')
           = Some (table_of holdout_metric_columns (new3 @ new4))
      \<and> fst (compute_error_variance rh2) = Inr (Fin 0, Fin 0)
      \<and> fst (compute_accuracy_variance example_library rh2) = Inr (Fin 0, Fin 0)"
    apply (rule exI [of _ new3], rule exI [of _ new4], rule exI [of _ rhs], rule exI [of _ fsh])
    using rh(1-5) sh ev av h0(2) by simp
  from A B show ?thesis
    unfolding kf0_def kf1_def kf2_def rh0_def rh1_def rh2_def by blast
qed

end
